theory Spec2Isabelle
  imports Complex_Main "HOL-Library.AList"
begin

section \<open>Python values shared by the three modules\<close>

text \<open>
  Exceptions are values. \<open>Timeout\<close> is \<open>requests.exceptions.Timeout\<close>,
  \<open>Exception msg\<close> is a plain \<open>Exception(msg)\<close> raised by the integration itself,
  \<open>AbortFlow reason\<close> is the host's flow abort, and \<open>OtherError\<close> stands for any
  exception class the code neither raises nor catches by name.

  Usage values are Python floats. Everything below is generic in the number type
  \<open>'a\<close> and uses only \<open>0\<close> and \<open>+\<close> on it: the definitions add in the order in
  which the code adds, and the theorems state every sum as the left fold that the code
  computes. No law of addition is assumed, so nothing depends on the additions being
  exact.
\<close>

datatype py_error =
    ValueError
  | KeyError
  | TypeError
  | IndexError
  | Timeout
  | Exception string
  | AbortFlow string
  | OtherError string

section \<open>sensor.py: the statistics importer\<close>

subsection \<open>Data\<close>

text \<open>
  A reading is the dict built by \<open>get_usage_data\<close>: \<open>'date'\<close>, \<open>'usage'\<close> and
  \<open>'type'\<close>. The two strings are \<open>None\<close> when the CSV row was short (see
  \<open>csv.DictReader\<close> below), hence the option.
\<close>

record 'a reading =
  date :: "string option"
  usage :: 'a
  rtype :: "string option"

record 'a usage_data =
  total_usage :: 'a
  readings :: "'a reading list"
  last_updated :: string

text \<open>
  An aware datetime compares, hashes and sorts by the instant it denotes, whatever its
  UTC offset. The dict keys of \<open>hourly_readings\<close>, the \<open>'start'\<close> of a statistic and
  \<open>last_time\<close> are therefore modelled by their instant (microseconds since the epoch).
\<close>

type_synonym instant = int

record naive_datetime =
  year :: nat
  month :: nat
  day :: nat
  hour :: nat
  minute :: nat
  second :: nat
  microsecond :: nat

text \<open>
  A row of \<open>get_last_statistics\<close>: \<open>row_start\<close> is \<open>last_stat["start"]\<close> read
  through \<open>datetime.fromtimestamp(_, tz=timezone.utc).astimezone(TIMEZONE)\<close>, which keeps
  the instant; \<open>row_sum\<close> is \<open>None\<close> when the key \<open>"sum"\<close> is absent, the case
  \<open>last_stat.get("sum", 0)\<close> provides for.
\<close>

record 'a statistics_row =
  row_start :: instant
  row_sum :: "'a option"

record 'a statistic =
  stat_start :: instant
  stat_sum :: 'a
  stat_state :: 'a

text \<open>\<open>StatisticMetaData\<close>; the constant fields (mean type, unit) are left out.\<close>

record metadata =
  has_sum :: bool
  md_name :: string
  md_source :: string
  md_statistic_id :: string

text \<open>
  What the module takes from outside: the constant \<open>DOMAIN\<close> of \<open>const.py\<close>, the
  library functions \<open>datetime.strptime(_, "%d-%m-%Y %H:%M")\<close> (\<open>None\<close> is its
  \<open>ValueError\<close>) and \<open>TIMEZONE.localize\<close> (total: with the default
  \<open>is_dst=False\<close> it resolves ambiguous and non-existent wall-clock times without
  raising), and the recorder's \<open>get_last_statistics(hass, 1, statistic_id, True, types)\<close>
  as a function of the statistic id it is asked for.
\<close>

record 'a sensor_env =
  DOMAIN :: string
  strptime :: "string \<Rightarrow> naive_datetime option"
  localize :: "naive_datetime \<Rightarrow> instant"
  get_last_statistics :: "string \<Rightarrow> (string \<rightharpoonup> 'a statistics_row list)"

subsection \<open>The importer\<close>

definition statistic_id_of :: "string \<Rightarrow> string \<Rightarrow> string" where
  "statistic_id_of domain mprn = domain @ '':esb_'' @ mprn @ ''_consumption''"

definition metadata_of :: "string \<Rightarrow> string \<Rightarrow> metadata" where
  "metadata_of domain mprn =
     \<lparr>has_sum = True, md_name = ''ESB Energy '' @ mprn, md_source = domain,
      md_statistic_id = statistic_id_of domain mprn\<rparr>"

text \<open>
  Lines 118-134: \<open>last_time\<close> and \<open>last_sum\<close>. \<open>last_stats[statistic_id][0]\<close> raises
  \<open>IndexError\<close> on an empty list.
\<close>

definition read_last ::
  "string \<Rightarrow> (string \<rightharpoonup> ('a::zero) statistics_row list) \<Rightarrow> py_error + (instant option \<times> 'a)" where
  "read_last statistic_id last_stats =
     (case last_stats statistic_id of
        None \<Rightarrow> Inr (None, 0)
      | Some rows \<Rightarrow>
          (case rows of
             [] \<Rightarrow> Inl IndexError
           | last_stat # _ \<Rightarrow>
               (let last_time = Some (row_start last_stat);
                    last_sum = (case row_sum last_stat of None \<Rightarrow> 0 | Some s \<Rightarrow> s)
                in if last_sum = 0 then Inr (None, last_sum) else Inr (last_time, last_sum))))"

definition replace_hour :: "naive_datetime \<Rightarrow> naive_datetime" where
  "replace_hour dt = dt\<lparr>minute := 0, second := 0, microsecond := 0\<rparr>"

text \<open>
  Lines 143-158: the key of a reading, \<open>None\<close> when the iteration
  \<open>continue\<close>s (empty or \<open>None\<close> date, or a \<open>ValueError\<close> of \<open>strptime\<close>).
\<close>

definition reading_time_of :: "'a sensor_env \<Rightarrow> 'b reading \<Rightarrow> instant option" where
  "reading_time_of env reading =
     (case date reading of
        None \<Rightarrow> None
      | Some reading_date_str \<Rightarrow>
          if reading_date_str = [] then None
          else (case strptime env reading_date_str of
                  None \<Rightarrow> None
                | Some naive_dt \<Rightarrow> Some (localize env (replace_hour naive_dt))))"

text \<open>
  Lines 141-170, one iteration. The dict \<open>hourly_readings\<close> is an association list
  in insertion order; \<open>AList.update\<close> overwrites in place or appends, as a Python dict
  does. \<open>float(reading.get("usage", 0))\<close> is the identity on the float the reading
  holds.
\<close>

definition hourly_step ::
  "'b sensor_env \<Rightarrow> (instant \<times> ('a::plus)) list \<Rightarrow> 'a reading \<Rightarrow> (instant \<times> 'a) list" where
  "hourly_step env hourly_readings reading =
     (case reading_time_of env reading of
        None \<Rightarrow> hourly_readings
      | Some reading_time \<Rightarrow>
          (case map_of hourly_readings reading_time of
             Some v \<Rightarrow> AList.update reading_time (v + usage reading) hourly_readings
           | None \<Rightarrow> AList.update reading_time (usage reading) hourly_readings))"

definition group_hourly ::
  "'b sensor_env \<Rightarrow> ('a::plus) reading list \<Rightarrow> (instant \<times> 'a) list" where
  "group_hourly env rs = foldl (hourly_step env) [] rs"

text \<open>Line 179: \<open>last_time and reading_time <= last_time\<close>; a datetime is truthy.\<close>

definition already_have :: "instant option \<Rightarrow> instant \<Rightarrow> bool" where
  "already_have last_time reading_time =
     (case last_time of None \<Rightarrow> False | Some lt \<Rightarrow> reading_time \<le> lt)"

text \<open>
  Lines 177-191: the loop over the sorted keys, with \<open>cumulative_sum\<close> as the
  accumulator. \<open>hourly_readings[reading_time]\<close> raises \<open>KeyError\<close> on a missing key.
\<close>

fun to_statistics ::
  "instant option \<Rightarrow> (instant \<times> ('a::plus)) list \<Rightarrow> 'a \<Rightarrow> instant list \<Rightarrow>
     py_error + 'a statistic list" where
  "to_statistics last_time hourly_readings cumulative_sum [] = Inr []"
| "to_statistics last_time hourly_readings cumulative_sum (reading_time # ts) =
     (if already_have last_time reading_time
      then to_statistics last_time hourly_readings cumulative_sum ts
      else (case map_of hourly_readings reading_time of
              None \<Rightarrow> Inl KeyError
            | Some u \<Rightarrow>
                (case to_statistics last_time hourly_readings (cumulative_sum + u) ts of
                   Inl e \<Rightarrow> Inl e
                 | Inr statistics \<Rightarrow>
                     Inr (\<lparr>stat_start = reading_time, stat_sum = cumulative_sum + u,
                           stat_state = u\<rparr> # statistics))))"

text \<open>
  \<open>_async_import_statistics\<close>. The result is the call made to
  \<open>async_add_external_statistics\<close> (metadata and statistics), \<open>None\<close> when the list
  is empty and no call is made, or the exception that the final handler re-raises.
  The counters \<open>skipped\<close> and \<open>parse_errors\<close> only feed the log and are left out.
\<close>

definition async_import_statistics ::
  "('a::{zero,plus}) sensor_env \<Rightarrow> string \<Rightarrow> 'a usage_data \<Rightarrow>
     py_error + (metadata \<times> 'a statistic list) option" where
  "async_import_statistics env mprn data =
     (let statistic_id = statistic_id_of (DOMAIN env) mprn;
          metadata = metadata_of (DOMAIN env) mprn;
          last_stats = get_last_statistics env statistic_id
      in case read_last statistic_id last_stats of
           Inl e \<Rightarrow> Inl e
         | Inr (last_time, last_sum) \<Rightarrow>
             (let hourly_readings = group_hourly env (readings data)
              in case to_statistics last_time hourly_readings last_sum
                        (sort (map fst hourly_readings)) of
                   Inl e \<Rightarrow> Inl e
                 | Inr statistics \<Rightarrow>
                     if statistics \<noteq> [] then Inr (Some (metadata, statistics))
                     else Inr None))"

section \<open>esb\_api.py: the session client\<close>

subsection \<open>Requests, responses and the network\<close>

text \<open>
  A request is the call made on the \<open>requests\<close> session: method, URL and the keyword
  arguments \<open>params\<close>, \<open>headers\<close>, \<open>cookies\<close>, \<open>data\<close> or \<open>json\<close>,
  \<open>allow_redirects\<close> (the library's default is \<open>True\<close>) and \<open>timeout\<close>. A
  cookie value is \<open>None\<close> when \<open>dict.get\<close> found nothing. The session also carries
  the \<open>User-Agent\<close> header set once by \<open>session.headers.update\<close>; the record holds
  the headers passed to the call.
\<close>

datatype http_method = GET | POST

datatype body = NoBody | FormData "(string \<times> string) list" | JsonBody "(string \<times> string) list"

record request =
  req_method :: http_method
  req_url :: string
  req_params :: "(string \<times> string) list"
  req_headers :: "(string \<times> string) list"
  req_cookies :: "(string \<times> string option) list"
  req_body :: body
  allow_redirects :: bool
  req_timeout :: "(nat \<times> nat) option"

record response =
  resp_content :: string
  resp_text :: string

type_synonym cookie_jar = "(string \<times> string) list"

text \<open>
  The outside world: the answer to the latest request, given every request sent so
  far in the session (the latest last). The answer is an exception, or the response
  together with \<open>session.cookies.get_dict()\<close> as it stands after the exchange. The
  random pauses between the requests do not change any value and are left out.
\<close>

type_synonym network = "request list \<Rightarrow> py_error + (response \<times> cookie_jar)"

text \<open>
  The form that \<open>BeautifulSoup(content, 'html.parser').find('form', {'id': 'auto'})\<close>
  returns: its attributes, and the attributes of its \<open>input\<close> descendants in
  document order. A row of \<open>csv.DictReader\<close> maps a header field to a string, or
  to \<open>None\<close> for a field that a short row lacks.
\<close>

record html_form =
  form_attrs :: "(string \<times> string) list"
  form_inputs :: "(string \<times> string) list list"

type_synonym csv_row = "(string \<times> string option) list"

text \<open>
  The library functions the method calls, as parameters:
  \<open>re.findall(r"(?<=var SETTINGS = )\S*;", str(content))\<close>, \<open>json.loads\<close> (a JSON
  object with string members, or the exception), the form lookup above,
  \<open>bytes.decode('utf-8')\<close>, \<open>csv.DictReader\<close> on the list of lines,
  \<open>float\<close> on a string (\<open>None\<close> is its \<open>ValueError\<close>) and
  \<open>datetime.now().isoformat()\<close>.
\<close>

record 'a esb_lib =
  findall_settings :: "string \<Rightarrow> string list"
  json_loads :: "string \<Rightarrow> py_error + (string \<times> string) list"
  find_form_auto :: "string \<Rightarrow> html_form option"
  decode_utf8 :: "string \<Rightarrow> py_error + string"
  DictReader :: "string list \<Rightarrow> csv_row list"
  float_of_str :: "string \<Rightarrow> 'a option"
  now_isoformat :: string

text \<open>
  The debug cache: the flag \<open>DEBUG_USE_CACHE\<close> (environment variable
  \<open>ESB_DEBUG_CACHE\<close>) and the file \<open>/config/esb_cache.json\<close>: absent
  (\<open>None\<close>), unreadable (an exception of \<open>open\<close> or \<open>json.load\<close>), or the
  document it holds. The document has the shape this module writes, with any field
  values.
\<close>

record 'a cache_env =
  DEBUG_USE_CACHE :: bool
  cache_file :: "(py_error + 'a usage_data) option"

record esb_smart_meter =
  self_mprn :: string
  self_email :: string
  self_password :: string
  user_agent :: string

definition ESBSmartMeter :: "string \<Rightarrow> string \<Rightarrow> string \<Rightarrow> esb_smart_meter" where
  "ESBSmartMeter m e p =
     \<lparr>self_mprn = m, self_email = e, self_password = p,
      user_agent = ''Mozilla/5.0 (X11; Ubuntu; Linux x86_64; rv:142.0) Gecko/20100101 Firefox/142.0''\<rparr>"

subsection \<open>The session as state\<close>

text \<open>
  The state threaded through \<open>get_usage_data\<close> is the list of requests sent so far.
  A step returns the new list and a value or the exception raised; \<open>session_bind\<close>
  stops at the first exception.
\<close>

type_synonym 'x session = "request list \<Rightarrow> request list \<times> (py_error + 'x)"

definition session_bind :: "'x session \<Rightarrow> ('x \<Rightarrow> 'y session) \<Rightarrow> 'y session" where
  "session_bind m f = (\<lambda>sent. case m sent of
                               (sent', Inl e) \<Rightarrow> (sent', Inl e)
                             | (sent', Inr x) \<Rightarrow> f x sent')"

definition session_lift :: "py_error + 'x \<Rightarrow> 'x session" where
  "session_lift r = (\<lambda>sent. (sent, r))"

definition session_send :: "network \<Rightarrow> request \<Rightarrow> (response \<times> cookie_jar) session" where
  "session_send net req = (\<lambda>sent. (sent @ [req], net (sent @ [req])))"

subsection \<open>The eight requests\<close>

text \<open>
  Each request as the source builds it, from what is known when it is sent: lines
  50-51, 64-84, 89-102, 123-133, 138-145, 153-161, 167-177 and 183-194. The parameter
  \<open>rememberMe: False\<close> goes out as the string \<open>False\<close>.
\<close>

definition request_1 :: request where
  "request_1 =
     \<lparr>req_method = GET, req_url = ''https://myaccount.esbnetworks.ie/'', req_params = [],
      req_headers = [], req_cookies = [], req_body = NoBody, allow_redirects = True,
      req_timeout = Some (10, 5)\<rparr>"

definition request_2 :: "esb_smart_meter \<Rightarrow> string \<Rightarrow> string \<Rightarrow> cookie_jar \<Rightarrow> request" where
  "request_2 self transId x_csrf_token request_1_response_cookies =
     \<lparr>req_method = POST,
      req_url = ''https://login.esbnetworks.ie/esbntwkscustportalprdb2c01.onmicrosoft.com/B2C_1A_signup_signin/SelfAsserted?tx=''
                  @ transId @ ''&p=B2C_1A_signup_signin'',
      req_params = [],
      req_headers =
        [(''x-csrf-token'', x_csrf_token),
         (''User-Agent'', user_agent self),
         (''Accept'', ''application/json, text/javascript, */*; q=0.01''),
         (''Content-Type'', ''application/x-www-form-urlencoded; charset=UTF-8''),
         (''X-Requested-With'', ''XMLHttpRequest''),
         (''Origin'', ''https://login.esbnetworks.ie'')],
      req_cookies =
        [(''x-ms-cpim-csrf'', map_of request_1_response_cookies ''x-ms-cpim-csrf''),
         (''x-ms-cpim-trans'', map_of request_1_response_cookies ''x-ms-cpim-trans'')],
      req_body =
        FormData [(''signInName'', self_email self), (''password'', self_password self),
                  (''request_type'', ''RESPONSE'')],
      allow_redirects = False,
      req_timeout = None\<rparr>"

definition request_3 :: "esb_smart_meter \<Rightarrow> string \<Rightarrow> string \<Rightarrow> cookie_jar \<Rightarrow> request" where
  "request_3 self transId x_csrf_token request_2_response_cookies =
     \<lparr>req_method = GET,
      req_url = ''https://login.esbnetworks.ie/esbntwkscustportalprdb2c01.onmicrosoft.com/B2C_1A_signup_signin/api/CombinedSigninAndSignup/confirmed'',
      req_params =
        [(''rememberMe'', ''False''), (''csrf_token'', x_csrf_token), (''tx'', transId),
         (''p'', ''B2C_1A_signup_signin'')],
      req_headers = [(''User-Agent'', user_agent self)],
      req_cookies =
        [(''x-ms-cpim-csrf'', map_of request_2_response_cookies ''x-ms-cpim-csrf''),
         (''x-ms-cpim-trans'', map_of request_2_response_cookies ''x-ms-cpim-trans'')],
      req_body = NoBody,
      allow_redirects = True,
      req_timeout = None\<rparr>"

definition request_4 :: "esb_smart_meter \<Rightarrow> string \<Rightarrow> string \<Rightarrow> string \<Rightarrow> string \<Rightarrow> request" where
  "request_4 self login_url state client_info code =
     \<lparr>req_method = POST,
      req_url = login_url,
      req_params = [],
      req_headers =
        [(''User-Agent'', user_agent self),
         (''Content-Type'', ''application/x-www-form-urlencoded''),
         (''Origin'', ''https://login.esbnetworks.ie''),
         (''Referer'', ''https://login.esbnetworks.ie/'')],
      req_cookies = [],
      req_body = FormData [(''state'', state), (''client_info'', client_info), (''code'', code)],
      allow_redirects = False,
      req_timeout = None\<rparr>"

definition request_5 :: "esb_smart_meter \<Rightarrow> cookie_jar \<Rightarrow> request" where
  "request_5 self request_4_response_cookies =
     \<lparr>req_method = GET,
      req_url = ''https://myaccount.esbnetworks.ie'',
      req_params = [],
      req_headers = [(''User-Agent'', user_agent self)],
      req_cookies =
        [(''ARRAffinity'', map_of request_4_response_cookies ''ARRAffinity''),
         (''ARRAffinitySameSite'', map_of request_4_response_cookies ''ARRAffinitySameSite'')],
      req_body = NoBody,
      allow_redirects = True,
      req_timeout = None\<rparr>"

definition request_6 :: "esb_smart_meter \<Rightarrow> cookie_jar \<Rightarrow> string option \<Rightarrow> request" where
  "request_6 self request_4_response_cookies asp_net_core_cookie =
     \<lparr>req_method = GET,
      req_url = ''https://myaccount.esbnetworks.ie/Api/HistoricConsumption'',
      req_params = [],
      req_headers = [(''User-Agent'', user_agent self)],
      req_cookies =
        [(''ARRAffinity'', map_of request_4_response_cookies ''ARRAffinity''),
         (''ARRAffinitySameSite'', map_of request_4_response_cookies ''ARRAffinitySameSite''),
         (''.AspNetCore.Cookies'', asp_net_core_cookie)],
      req_body = NoBody,
      allow_redirects = True,
      req_timeout = None\<rparr>"

definition request_7 :: "esb_smart_meter \<Rightarrow> cookie_jar \<Rightarrow> request" where
  "request_7 self request_4_response_cookies =
     \<lparr>req_method = GET,
      req_url = ''https://myaccount.esbnetworks.ie/af/t'',
      req_params = [],
      req_headers =
        [(''User-Agent'', user_agent self),
         (''X-Returnurl'', ''https://myaccount.esbnetworks.ie/Api/HistoricConsumption'')],
      req_cookies =
        [(''ARRAffinity'', map_of request_4_response_cookies ''ARRAffinity''),
         (''ARRAffinitySameSite'', map_of request_4_response_cookies ''ARRAffinitySameSite'')],
      req_body = NoBody,
      allow_redirects = True,
      req_timeout = None\<rparr>"

definition request_8 :: "esb_smart_meter \<Rightarrow> string \<Rightarrow> request" where
  "request_8 self file_download_token =
     \<lparr>req_method = POST,
      req_url = ''https://myaccount.esbnetworks.ie/DataHub/DownloadHdfPeriodic'',
      req_params = [],
      req_headers =
        [(''User-Agent'', user_agent self),
         (''Content-Type'', ''application/json''),
         (''X-Xsrf-Token'', file_download_token)],
      req_cookies = [],
      req_body = JsonBody [(''mprn'', self_mprn self), (''searchType'', ''intervalkwh'')],
      allow_redirects = True,
      req_timeout = None\<rparr>"

subsection \<open>Extracting tokens\<close>

text \<open>\<open>d[k]\<close> on a dict: \<open>KeyError\<close> when the key is missing.\<close>

definition subscript :: "(string \<times> 'v) list \<Rightarrow> string \<Rightarrow> py_error + 'v" where
  "subscript d k = (case map_of d k of None \<Rightarrow> Inl KeyError | Some v \<Rightarrow> Inr v)"

text \<open>
  Lines 53-57: \<open>result[0]\<close> raises \<open>IndexError\<close> when the pattern is not found;
  \<open>[:-1]\<close> drops the final semicolon.
\<close>

definition settings_of :: "'a esb_lib \<Rightarrow> response \<Rightarrow> py_error + (string \<times> string)" where
  "settings_of lib request_1_response =
     (case findall_settings lib (resp_content request_1_response) of
        [] \<Rightarrow> Inl IndexError
      | r0 # _ \<Rightarrow>
          (case json_loads lib (butlast r0) of
             Inl e \<Rightarrow> Inl e
           | Inr settings \<Rightarrow>
               (case subscript settings ''csrf'' of
                  Inl e \<Rightarrow> Inl e
                | Inr x_csrf_token \<Rightarrow>
                    (case subscript settings ''transId'' of
                       Inl e \<Rightarrow> Inl e
                     | Inr transId \<Rightarrow> Inr (x_csrf_token, transId)))))"

text \<open>
  Lines 105-118. \<open>form.find('input', {'name': n})['value']\<close>: the first input whose
  \<open>name\<close> is \<open>n\<close>; subscripting \<open>None\<close> raises \<open>TypeError\<close>.
\<close>

definition input_value :: "html_form \<Rightarrow> string \<Rightarrow> py_error + string" where
  "input_value form n =
     (case find (\<lambda>attrs. map_of attrs ''name'' = Some n) (form_inputs form) of
        None \<Rightarrow> Inl TypeError
      | Some attrs \<Rightarrow> subscript attrs ''value'')"

definition auth_form_of ::
  "'a esb_lib \<Rightarrow> response \<Rightarrow> py_error + (string \<times> string \<times> string \<times> string)" where
  "auth_form_of lib request_3_response =
     (if take 21 (resp_text request_3_response) \<noteq> ''<!DOCTYPE html PUBLIC''
      then Inl (Exception ''Login failed - too many retries or session error'')
      else (case find_form_auto lib (resp_content request_3_response) of
              None \<Rightarrow> Inl TypeError
            | Some form \<Rightarrow>
                (case subscript (form_attrs form) ''action'' of
                   Inl e \<Rightarrow> Inl e
                 | Inr login_url \<Rightarrow>
                     (case input_value form ''state'' of
                        Inl e \<Rightarrow> Inl e
                      | Inr state \<Rightarrow>
                          (case input_value form ''client_info'' of
                             Inl e \<Rightarrow> Inl e
                           | Inr client_info \<Rightarrow>
                               (case input_value form ''code'' of
                                  Inl e \<Rightarrow> Inl e
                                | Inr code \<Rightarrow> Inr (login_url, state, client_info, code)))))))"

definition download_token_of :: "'a esb_lib \<Rightarrow> response \<Rightarrow> py_error + string" where
  "download_token_of lib request_7_response =
     (case json_loads lib (resp_text request_7_response) of
        Inl e \<Rightarrow> Inl e
      | Inr d \<Rightarrow> subscript d ''token'')"

subsection \<open>The exchange\<close>

text \<open>Lines 48-196: the eight requests in order, each built from what came before.\<close>

definition fetch :: "'a esb_lib \<Rightarrow> network \<Rightarrow> esb_smart_meter \<Rightarrow> response session" where
  "fetch lib net self =
     session_bind (session_send net request_1)
       (\<lambda>(request_1_response, request_1_response_cookies).
     session_bind (session_lift (settings_of lib request_1_response))
       (\<lambda>(x_csrf_token, transId).
     session_bind (session_send net (request_2 self transId x_csrf_token request_1_response_cookies))
       (\<lambda>(request_2_response, request_2_response_cookies).
     session_bind (session_send net (request_3 self transId x_csrf_token request_2_response_cookies))
       (\<lambda>(request_3_response, request_3_response_cookies).
     session_bind (session_lift (auth_form_of lib request_3_response))
       (\<lambda>(login_url, state, client_info, code).
     session_bind (session_send net (request_4 self login_url state client_info code))
       (\<lambda>(request_4_response, request_4_response_cookies).
     session_bind (session_send net (request_5 self request_4_response_cookies))
       (\<lambda>(request_5_response, request_5_response_cookies).
     session_bind (session_send net
         (request_6 self request_4_response_cookies
            (map_of request_5_response_cookies ''.AspNetCore.Cookies'')))
       (\<lambda>(request_6_response, request_6_response_cookies).
     session_bind (session_send net (request_7 self request_4_response_cookies))
       (\<lambda>(request_7_response, request_7_response_cookies).
     session_bind (session_lift (download_token_of lib request_7_response))
       (\<lambda>file_download_token.
     session_bind (session_send net (request_8 self file_download_token))
       (\<lambda>(request_8_response, request_8_response_cookies).
     session_lift (Inr request_8_response))))))))))))"

subsection \<open>Parsing the CSV\<close>

text \<open>\<open>s.split(sep)\<close> for a separator of one character.\<close>

fun split_on :: "char \<Rightarrow> string \<Rightarrow> string list" where
  "split_on sep [] = [[]]"
| "split_on sep (c # cs) =
     (if c = sep then [] # split_on sep cs
      else (case split_on sep cs of
              [] \<Rightarrow> [[c]]
            | w # ws \<Rightarrow> (c # w) # ws))"

text \<open>
  \<open>row.get(k, '')\<close>, and \<open>float(row.get('Read Value', 0))\<close>: \<open>float(0)\<close> when
  the key is missing, \<open>TypeError\<close> on \<open>None\<close>, \<open>ValueError\<close> on a string
  that is not a number.
\<close>

definition get_or_empty :: "csv_row \<Rightarrow> string \<Rightarrow> string option" where
  "get_or_empty row k = (case map_of row k of None \<Rightarrow> Some [] | Some v \<Rightarrow> v)"

definition read_value :: "(string \<Rightarrow> ('a::zero) option) \<Rightarrow> csv_row \<Rightarrow> py_error + 'a" where
  "read_value fl row =
     (case map_of row ''Read Value'' of
        None \<Rightarrow> Inr 0
      | Some None \<Rightarrow> Inl TypeError
      | Some (Some s) \<Rightarrow> (case fl s of None \<Rightarrow> Inl ValueError | Some u \<Rightarrow> Inr u))"

text \<open>
  Lines 216-228: the body of the \<open>try\<close>, and the loop. \<open>ValueError\<close> and
  \<open>KeyError\<close> skip the row; any other exception leaves the loop.
\<close>

definition row_reading :: "(string \<Rightarrow> ('a::zero) option) \<Rightarrow> csv_row \<Rightarrow> py_error + 'a reading" where
  "row_reading fl row =
     (let date_str = get_or_empty row ''Read Date and End Time''
      in case read_value fl row of
           Inl e \<Rightarrow> Inl e
         | Inr u \<Rightarrow> Inr \<lparr>date = date_str, usage = u, rtype = get_or_empty row ''Read Type''\<rparr>)"

fun process_rows ::
  "(string \<Rightarrow> ('a::{zero,plus}) option) \<Rightarrow> csv_row list \<Rightarrow> 'a \<Rightarrow> 'a reading list \<Rightarrow>
     py_error + ('a \<times> 'a reading list)" where
  "process_rows fl [] tot rs = Inr (tot, rs)"
| "process_rows fl (row # rows) tot rs =
     (case row_reading fl row of
        Inl e \<Rightarrow>
          if e = ValueError \<or> e = KeyError then process_rows fl rows tot rs else Inl e
      | Inr reading \<Rightarrow> process_rows fl rows (tot + usage reading) (rs @ [reading]))"

text \<open>Lines 198-236, from the final response to the result dict.\<close>

definition parse_usage_csv :: "('a::{zero,plus}) esb_lib \<Rightarrow> response \<Rightarrow> py_error + 'a usage_data" where
  "parse_usage_csv lib request_8_response =
     (case decode_utf8 lib (resp_content request_8_response) of
        Inl e \<Rightarrow> Inl e
      | Inr csv_file \<Rightarrow>
          if take 4 csv_file \<noteq> ''MPRN'' then Inl (Exception ''Invalid CSV format received'')
          else (let my_json = filter (\<lambda>row. row \<noteq> []) (DictReader lib (split_on (CHR 0x0A) csv_file))
                in case process_rows (float_of_str lib) my_json 0 [] of
                     Inl e \<Rightarrow> Inl e
                   | Inr (tot, rs) \<Rightarrow>
                       Inr \<lparr>total_usage = tot, readings = rs,
                            last_updated = now_isoformat lib\<rparr>))"

text \<open>
  The two handlers at the end of the method: a \<open>Timeout\<close> becomes
  \<open>Exception("Request timed out - server not responding")\<close>, anything else is raised
  again unchanged.
\<close>

definition reraise :: "py_error \<Rightarrow> py_error" where
  "reraise e =
     (if e = Timeout then Exception ''Request timed out - server not responding'' else e)"

text \<open>
  Lines 32-41: the cached document is returned when the flag is set and the file
  exists and loads; otherwise the method goes on to fetch.
\<close>

definition cache_hit :: "'a cache_env \<Rightarrow> 'a usage_data option" where
  "cache_hit cache =
     (if DEBUG_USE_CACHE cache
      then (case cache_file cache of Some (Inr cached) \<Rightarrow> Some cached | _ \<Rightarrow> None)
      else None)"

text \<open>
  \<open>get_usage_data\<close>: the requests sent, and the returned dict or the exception
  raised. Writing the cache file after a fetch (lines 238-245) cannot fail the call
  and does not change the result.
\<close>

definition get_usage_data ::
  "('a::{zero,plus}) esb_lib \<Rightarrow> 'a cache_env \<Rightarrow> network \<Rightarrow> esb_smart_meter \<Rightarrow>
     request list \<times> (py_error + 'a usage_data)" where
  "get_usage_data lib cache net self =
     (case cache_hit cache of
        Some cached \<Rightarrow> ([], Inr cached)
      | None \<Rightarrow>
          (case session_bind (fetch lib net self)
                  (\<lambda>request_8_response. session_lift (parse_usage_csv lib request_8_response)) [] of
             (sent, Inl e) \<Rightarrow> (sent, Inl (reraise e))
           | (sent, Inr result) \<Rightarrow> (sent, Inr result)))"

text \<open>
  Lines 238-242: the document handed to \<open>json.dump\<close> for the cache file, if any.
  It is the result of a fetch made with the debug flag off; nothing else in the
  program writes the file.
\<close>

definition dumped_to_cache ::
  "('a::{zero,plus}) esb_lib \<Rightarrow> 'a cache_env \<Rightarrow> network \<Rightarrow> esb_smart_meter \<Rightarrow>
     'a usage_data option" where
  "dumped_to_cache lib cache net self =
     (case cache_hit cache of
        Some cached \<Rightarrow> None
      | None \<Rightarrow>
          (case snd (get_usage_data lib cache net self) of
             Inl e \<Rightarrow> None
           | Inr result \<Rightarrow> if \<not> DEBUG_USE_CACHE cache then Some result else None))" 

section \<open>config\_flow.py: the config flow\<close>

text \<open>
  The schema of the form is a list of \<open>vol.Required(name): str\<close> entries. A step
  returns a form to show or an entry to create; an abort is the host's
  \<open>AbortFlow\<close> exception.
\<close>

datatype field_type = Str

datatype schema_key = Required string

datatype flow_result =
    FlowForm string "(schema_key \<times> field_type) list" "(string \<times> string) list"
  | CreateEntry string "(string \<times> string) list"

record config_flow =
  unique_id :: "string option"

text \<open>
  The two methods of the host's \<open>ConfigFlow\<close> base class that the step calls. The
  host is given by the unique ids of the entries it holds as configured:
  \<open>async_set_unique_id\<close> records the id on the flow, and
  \<open>_abort_if_unique_id_configured\<close> raises \<open>AbortFlow("already_configured")\<close> when
  the flow's id is among them.
\<close>

definition async_set_unique_id :: "config_flow \<Rightarrow> string \<Rightarrow> config_flow" where
  "async_set_unique_id self uid = self\<lparr>unique_id := Some uid\<rparr>"

definition abort_if_unique_id_configured :: "string list \<Rightarrow> config_flow \<Rightarrow> py_error + unit" where
  "abort_if_unique_id_configured configured self =
     (case unique_id self of
        None \<Rightarrow> Inr ()
      | Some uid \<Rightarrow>
          if uid \<in> set configured then Inl (AbortFlow ''already_configured'') else Inr ())"

text \<open>\<open>async_step_user\<close>: the flow after the step, and its result.\<close>

definition async_step_user ::
  "string list \<Rightarrow> config_flow \<Rightarrow> (string \<times> string) list option \<Rightarrow>
     config_flow \<times> (py_error + flow_result)" where
  "async_step_user configured self user_input =
     (case user_input of
        Some ui \<Rightarrow>
          (case subscript ui ''mprn'' of
             Inl e \<Rightarrow> (self, Inl e)
           | Inr m \<Rightarrow>
               (let self' = async_set_unique_id self m
                in case abort_if_unique_id_configured configured self' of
                     Inl e \<Rightarrow> (self', Inl e)
                   | Inr _ \<Rightarrow> (self', Inr (CreateEntry (''ESB '' @ m) ui))))
      | None \<Rightarrow>
          (self,
           Inr (FlowForm ''user''
                  [(Required ''mprn'', Str), (Required ''email'', Str), (Required ''password'', Str)]
                  [])))"

section \<open>Vocabulary of the specification\<close>

text \<open>
  The hourly usage of an instant: the usage of the readings assigned to it, added
  from the first to the last; \<open>None\<close> when no reading is assigned to it.
\<close>

definition hourly_usage :: "'b sensor_env \<Rightarrow> ('a::plus) reading list \<Rightarrow> instant \<Rightarrow> 'a option" where
  "hourly_usage env rs t =
     (case map usage (filter (\<lambda>r. reading_time_of env r = Some t) rs) of
        [] \<Rightarrow> None
      | u # us \<Rightarrow> Some (foldl (+) u us))" 

text \<open>
  A reading whose date parses as the naive datetime \<open>dt\<close>, and a reading with a
  missing, empty or unparseable date.
\<close>

definition parses_as :: "'a sensor_env \<Rightarrow> 'b reading \<Rightarrow> naive_datetime \<Rightarrow> bool" where
  "parses_as env r dt = (case date r of None \<Rightarrow> False | Some s \<Rightarrow> s \<noteq> [] \<and> strptime env s = Some dt)"

definition unparseable :: "'a sensor_env \<Rightarrow> 'b reading \<Rightarrow> bool" where
  "unparseable env r = (case date r of None \<Rightarrow> True | Some s \<Rightarrow> s = [] \<or> strptime env s = None)"

text \<open>
  The most recent statistic stored for the meter's statistic id, and its sum (0 when
  there is none).
\<close>

definition stored_last :: "'a sensor_env \<Rightarrow> string \<Rightarrow> 'a statistics_row option" where
  "stored_last env mprn =
     (case get_last_statistics env (statistic_id_of (DOMAIN env) mprn) (statistic_id_of (DOMAIN env) mprn) of
        Some (row # _) \<Rightarrow> Some row
      | _ \<Rightarrow> None)"

definition stored_last_sum :: "('a::zero) sensor_env \<Rightarrow> string \<Rightarrow> 'a" where
  "stored_last_sum env mprn =
     (case stored_last env mprn of
        None \<Rightarrow> 0
      | Some row \<Rightarrow> (case row_sum row of None \<Rightarrow> 0 | Some s \<Rightarrow> s))"

text \<open>
  The readings of the rows that parse, one per row, in order; and the methods of the
  eight steps.
\<close>

definition parsed_readings :: "(string \<Rightarrow> ('a::zero) option) \<Rightarrow> csv_row list \<Rightarrow> 'a reading list" where
  "parsed_readings fl rows =
     List.map_filter (\<lambda>row. case row_reading fl row of Inr r \<Rightarrow> Some r | Inl e \<Rightarrow> None) rows"

definition eight_methods :: "http_method list" where
  "eight_methods = [GET, POST, GET, POST, GET, GET, GET, POST]"

text \<open>
  A cache file that holds a document holds one that a fetch of this program wrote.
\<close>

definition written_by_fetch :: "('a::{zero,plus}) usage_data \<Rightarrow> bool" where
  "written_by_fetch d =
     (\<exists>(lib :: 'a esb_lib) cache net self. dumped_to_cache lib cache net self = Some d)"

definition cache_from_fetch :: "('a::{zero,plus}) cache_env \<Rightarrow> bool" where
  "cache_from_fetch cache =
     (case cache_file cache of Some (Inr d) \<Rightarrow> written_by_fetch d | _ \<Rightarrow> True)" 

section \<open>Example inputs\<close>

text \<open>
  A recorder holding one statistic at 2024-01-01T00:00Z with a given sum, the
  timezone UTC on the readings of that day, and five readings, one of them with a
  date that does not parse.
\<close>

definition example_strptime :: "string \<Rightarrow> naive_datetime option" where
  "example_strptime s =
     (if s = ''01-01-2024 00:30'' then
        Some \<lparr>year = 2024, month = 1, day = 1, hour = 0, minute = 30, second = 0, microsecond = 0\<rparr>
      else if s = ''01-01-2024 01:00'' then
        Some \<lparr>year = 2024, month = 1, day = 1, hour = 1, minute = 0, second = 0, microsecond = 0\<rparr>
      else if s = ''01-01-2024 01:30'' then
        Some \<lparr>year = 2024, month = 1, day = 1, hour = 1, minute = 30, second = 0, microsecond = 0\<rparr>
      else if s = ''01-01-2024 02:00'' then
        Some \<lparr>year = 2024, month = 1, day = 1, hour = 2, minute = 0, second = 0, microsecond = 0\<rparr>
      else None)"

definition example_localize :: "naive_datetime \<Rightarrow> instant" where
  "example_localize dt =
     (1704067200 + 3600 * int (hour dt) + 60 * int (minute dt) + int (second dt)) * 1000000
       + int (microsecond dt)"

definition example_store :: "real \<Rightarrow> string \<Rightarrow> (string \<rightharpoonup> real statistics_row list)" where
  "example_store s statistic_id =
     [statistic_id \<mapsto> [\<lparr>row_start = 1704067200000000, row_sum = Some s\<rparr>]]"

definition example_env :: "(string \<Rightarrow> (string \<rightharpoonup> real statistics_row list)) \<Rightarrow> real sensor_env" where
  "example_env store =
     \<lparr>DOMAIN = ''esb_integration'', strptime = example_strptime,
      localize = example_localize, get_last_statistics = store\<rparr>"

definition example_reading :: "string \<Rightarrow> real \<Rightarrow> real reading" where
  "example_reading d u = \<lparr>date = Some d, usage = u, rtype = Some ''Active Import Interval (kW)''\<rparr>"

definition example_data :: "real usage_data" where
  "example_data =
     \<lparr>total_usage = 7,
      readings =
        [example_reading ''01-01-2024 00:30'' (1/4),
         example_reading ''01-01-2024 01:00'' (1/2),
         example_reading ''garbage'' 5,
         example_reading ''01-01-2024 01:30'' (1/4),
         example_reading ''01-01-2024 02:00'' 1],
      last_updated = ''2024-01-02T03:00:00''\<rparr>"

text \<open>
  A portal that answers the eight requests in turn and serves a given body last, with
  library functions that are defined on the pages it serves.
\<close>

definition example_DictReader :: "string list \<Rightarrow> csv_row list" where
  "example_DictReader ls =
     (case ls of
        [] \<Rightarrow> []
      | header # rest \<Rightarrow>
          map (\<lambda>l. zip (split_on (CHR '','') header) (map Some (split_on (CHR '','') l)))
            (filter (\<lambda>l. l \<noteq> []) rest))"

definition example_lib :: "real esb_lib" where
  "example_lib =
     \<lparr>findall_settings = (\<lambda>c. if c = ''<script>var SETTINGS = SETTINGS-JSON;</script>''
                              then [''SETTINGS-JSON;''] else []),
      json_loads = (\<lambda>s. if s = ''SETTINGS-JSON''
                          then Inr [(''csrf'', ''csrf-1''), (''transId'', ''tx-1'')]
                        else if s = ''TOKEN-JSON'' then Inr [(''token'', ''download-1'')]
                        else Inl ValueError),
      find_form_auto = (\<lambda>c. if c = ''<!DOCTYPE html PUBLIC><form id=auto>''
                              then Some \<lparr>form_attrs = [(''id'', ''auto''), (''action'', ''https://myaccount.esbnetworks.ie/signin-oidc'')],
                                         form_inputs = [[(''name'', ''state''), (''value'', ''state-1'')],
                                                        [(''name'', ''client_info''), (''value'', ''info-1'')],
                                                        [(''name'', ''code''), (''value'', ''code-1'')]]\<rparr>
                            else None),
      decode_utf8 = Inr,
      DictReader = example_DictReader,
      float_of_str = (\<lambda>s. if s = ''0.25'' then Some (1/4) else if s = ''0.5'' then Some (1/2)
                          else if s = ''1'' then Some 1 else None),
      now_isoformat = ''2024-01-02T03:00:00''\<rparr>"

definition example_csv :: string where
  "example_csv =
     ''MPRN,Meter Serial Number,Read Value,Read Type,Read Date and End Time'' @ [CHR 0x0A] @
     ''10012345678,1,0.25,kW,01-01-2024 00:30'' @ [CHR 0x0A] @
     ''10012345678,1,n/a,kW,01-01-2024 01:00'' @ [CHR 0x0A] @
     ''10012345678,1,0.5,kW,01-01-2024 01:30'' @ [CHR 0x0A]"

definition example_page :: "string \<Rightarrow> response" where
  "example_page s = \<lparr>resp_content = s, resp_text = s\<rparr>"

definition example_jar_1 :: cookie_jar where
  "example_jar_1 = [(''x-ms-cpim-csrf'', ''c1''), (''x-ms-cpim-trans'', ''t1'')]"

definition example_jar_2 :: cookie_jar where
  "example_jar_2 = [(''x-ms-cpim-csrf'', ''c2''), (''x-ms-cpim-trans'', ''t2'')]"

definition example_jar_4 :: cookie_jar where
  "example_jar_4 = [(''ARRAffinity'', ''a1''), (''ARRAffinitySameSite'', ''a2'')]"

definition example_jar_5 :: cookie_jar where
  "example_jar_5 = [(''ARRAffinity'', ''a1''), (''ARRAffinitySameSite'', ''a2''), (''.AspNetCore.Cookies'', ''asp1'')]"

definition example_network :: "string \<Rightarrow> network" where
  "example_network csv sent =
     (if length sent = 1 then Inr (example_page ''<script>var SETTINGS = SETTINGS-JSON;</script>'', example_jar_1)
      else if length sent = 2 then Inr (example_page ''ok'', example_jar_2)
      else if length sent = 3 then Inr (example_page ''<!DOCTYPE html PUBLIC><form id=auto>'', example_jar_2)
      else if length sent = 4 then Inr (example_page [], example_jar_4)
      else if length sent = 5 then Inr (example_page ''portal'', example_jar_5)
      else if length sent = 6 then Inr (example_page ''consumption'', example_jar_5)
      else if length sent = 7 then Inr (example_page ''TOKEN-JSON'', example_jar_5)
      else if length sent = 8 then Inr (example_page csv, example_jar_5)
      else Inl (OtherError ''ConnectionError''))"

definition example_meter :: esb_smart_meter where
  "example_meter = ESBSmartMeter ''10012345678'' ''user@example.org'' ''secret''"

definition example_requests :: "request list" where
  "example_requests =
     [request_1,
      request_2 example_meter ''tx-1'' ''csrf-1'' example_jar_1,
      request_3 example_meter ''tx-1'' ''csrf-1'' example_jar_2,
      request_4 example_meter ''https://myaccount.esbnetworks.ie/signin-oidc'' ''state-1'' ''info-1'' ''code-1'',
      request_5 example_meter example_jar_4,
      request_6 example_meter example_jar_4 (Some ''asp1''),
      request_7 example_meter example_jar_4,
      request_8 example_meter ''download-1'']"

definition example_result :: "real usage_data" where
  "example_result =
     \<lparr>total_usage = 3/4,
      readings = [\<lparr>date = Some ''01-01-2024 00:30'', usage = 1/4, rtype = Some ''kW''\<rparr>,
                  \<lparr>date = Some ''01-01-2024 01:30'', usage = 1/2, rtype = Some ''kW''\<rparr>],
      last_updated = ''2024-01-02T03:00:00''\<rparr>"

text \<open>
  The cache switched off; the cache switched on and holding a document; and a
  document from an earlier fetch.
\<close>

definition example_no_cache :: "real cache_env" where
  "example_no_cache = \<lparr>DEBUG_USE_CACHE = False, cache_file = None\<rparr>"

definition example_debug_cache :: "real usage_data \<Rightarrow> real cache_env" where
  "example_debug_cache cached = \<lparr>DEBUG_USE_CACHE = True, cache_file = Some (Inr cached)\<rparr>"

definition example_cached :: "real usage_data" where
  "example_cached =
     \<lparr>total_usage = 2,
      readings = [\<lparr>date = Some ''31-12-2023 23:30'', usage = 2, rtype = Some ''kW''\<rparr>],
      last_updated = ''2024-01-01T03:00:00''\<rparr>"

text \<open>What a user submits to the config flow.\<close>

definition example_input :: "(string \<times> string) list" where
  "example_input = [(''mprn'', ''10012345678''), (''email'', ''user@example.org''), (''password'', ''secret'')]"

section \<open>The importer: bucketing\<close>

lemma hourly_step_map_of:
  "map_of (hourly_step env hr r) t =
     (if reading_time_of env r = Some t
      then (case map_of hr t of Some v \<Rightarrow> Some (v + usage r) | None \<Rightarrow> Some (usage r))
      else map_of hr t)"
  by (auto simp: hourly_step_def AList.update_conv' split: option.splits)

lemma hourly_step_distinct:
  "distinct (map fst hr) \<Longrightarrow> distinct (map fst (hourly_step env hr r))"
  by (auto simp: hourly_step_def AList.distinct_update split: option.splits)

lemma foldl_hourly_distinct:
  "distinct (map fst hr) \<Longrightarrow> distinct (map fst (foldl (hourly_step env) hr rs))"
  by (induction rs arbitrary: hr) (simp_all add: hourly_step_distinct)

lemma foldl_hourly_map_of:
  fixes hr :: "(instant \<times> ('a::plus)) list"
  shows "map_of (foldl (hourly_step env) hr rs) t =
     (case map_of hr t of
        Some v \<Rightarrow>
          Some (foldl (+) v (map usage (filter (\<lambda>r. reading_time_of env r = Some t) rs)))
      | None \<Rightarrow> hourly_usage env rs t)"
proof (induction rs arbitrary: hr)
  case Nil
  then show ?case by (simp add: hourly_usage_def split: option.splits)
next
  case (Cons r rs)
  show ?case
    by (simp add: Cons.IH hourly_step_map_of hourly_usage_def split: option.splits)
qed

lemma group_hourly_map_of:
  fixes rs :: "('a::plus) reading list"
  shows "map_of (group_hourly env rs) t = hourly_usage env rs t"
  by (simp add: group_hourly_def foldl_hourly_map_of)

lemma hourly_usage_None_iff:
  "hourly_usage env rs t = None \<longleftrightarrow> \<not> (\<exists>r \<in> set rs. reading_time_of env r = Some t)"
proof -
  have "hourly_usage env rs t = None \<longleftrightarrow> filter (\<lambda>r. reading_time_of env r = Some t) rs = []"
    by (cases "filter (\<lambda>r. reading_time_of env r = Some t) rs") (simp_all add: hourly_usage_def)
  then show ?thesis by (simp add: filter_empty_conv)
qed

lemma group_hourly_distinct: "distinct (map fst (group_hourly env rs))"
  by (simp add: group_hourly_def foldl_hourly_distinct)

lemma group_hourly_keys:
  fixes rs :: "('a::plus) reading list"
  shows "set (map fst (group_hourly env rs)) = {t. \<exists>r \<in> set rs. reading_time_of env r = Some t}"
proof -
  have "set (map fst (group_hourly env rs)) = dom (map_of (group_hourly env rs))"
    by (simp add: dom_map_of_conv_image_fst)
  also have "\<dots> = {t. \<exists>r \<in> set rs. reading_time_of env r = Some t}"
    using hourly_usage_None_iff[of env rs] by (auto simp: dom_def group_hourly_map_of)
  finally show ?thesis .
qed

lemma unparseable_iff: "unparseable env r \<longleftrightarrow> reading_time_of env r = None"
  by (simp add: unparseable_def reading_time_of_def split: option.splits)

lemma parses_as_time:
  "parses_as env r dt \<Longrightarrow>
     reading_time_of env r = Some (localize env (dt\<lparr>minute := 0, second := 0, microsecond := 0\<rparr>))"
  by (auto simp: parses_as_def reading_time_of_def replace_hour_def split: option.splits)

lemma foldl_hourly_filter:
  "foldl (hourly_step env) hr (filter (\<lambda>r. reading_time_of env r \<noteq> None) rs) =
     foldl (hourly_step env) hr rs"
  by (induction rs arbitrary: hr) (auto simp: hourly_step_def)

lemma group_hourly_filter:
  "group_hourly env (filter (\<lambda>r. \<not> unparseable env r) rs) = group_hourly env rs"
  unfolding unparseable_iff group_hourly_def by (rule foldl_hourly_filter)

lemma reading_time_of_store:
  "reading_time_of (env\<lparr>get_last_statistics := g\<rparr>) r = reading_time_of env r"
  by (simp add: reading_time_of_def split: option.splits)

lemma hourly_step_store:
  "hourly_step (env\<lparr>get_last_statistics := g\<rparr>) = hourly_step env"
  by (simp add: fun_eq_iff hourly_step_def reading_time_of_store)

lemma group_hourly_store:
  "group_hourly (env\<lparr>get_last_statistics := g\<rparr>) rs = group_hourly env rs"
  by (simp add: group_hourly_def hourly_step_store)

lemma sorted_keys_strict: "sorted_wrt (<) (sort (map fst (group_hourly env rs)))"
  by (simp add: strict_sorted_iff group_hourly_distinct)

lemma sorted_wrt_filter_strict: "sorted_wrt (<) xs \<Longrightarrow> sorted_wrt (<) (filter P (xs::int list))"
  by (simp add: sorted_wrt_filter)

section \<open>The importer: the running sum\<close>

lemma to_statistics_total:
  "set ts \<subseteq> fst ` set hr \<Longrightarrow> \<exists>sts. to_statistics lt hr cum ts = Inr sts"
proof (induction ts arbitrary: cum)
  case Nil
  then show ?case by simp
next
  case (Cons t ts)
  then obtain u where u: "map_of hr t = Some u"
    by (metis domD dom_map_of_conv_image_fst list.set_intros(1) subsetD)
  from Cons obtain sts where "to_statistics lt hr (cum + u) ts = Inr sts" by fastforce
  moreover from Cons obtain sts' where "to_statistics lt hr cum ts = Inr sts'" by fastforce
  ultimately show ?case using u by simp
qed

lemma to_statistics_starts:
  "to_statistics lt hr cum ts = Inr sts \<Longrightarrow>
     map stat_start sts = filter (\<lambda>t. \<not> already_have lt t) ts"
  by (induction ts arbitrary: cum sts) (auto split: if_splits option.splits sum.splits)

lemma to_statistics_states:
  "to_statistics lt hr cum ts = Inr sts \<Longrightarrow>
     map (\<lambda>s. Some (stat_state s)) sts = map (map_of hr) (map stat_start sts)"
  by (induction ts arbitrary: cum sts) (auto split: if_splits option.splits sum.splits)

text \<open>
  The running sum as the code computes it, one addition after the other; no law of
  addition is used.
\<close>

lemma to_statistics_running_sum:
  fixes cum :: "'a::plus"
  shows "to_statistics lt hr cum ts = Inr sts \<Longrightarrow> k < length sts \<Longrightarrow>
     stat_sum (sts ! k) = foldl (+) cum (map stat_state (take (Suc k) sts))"
proof (induction ts arbitrary: cum sts k)
  case Nil
  then show ?case by simp
next
  case (Cons t ts)
  show ?case
  proof (cases "already_have lt t")
    case True
    with Cons show ?thesis by simp
  next
    case False
    with Cons.prems obtain u rest where u: "map_of hr t = Some u"
      and rest: "to_statistics lt hr (cum + u) ts = Inr rest"
      and sts: "sts = \<lparr>stat_start = t, stat_sum = cum + u, stat_state = u\<rparr> # rest"
      by (auto split: option.splits sum.splits)
    show ?thesis
    proof (cases k)
      case 0
      then show ?thesis by (simp add: sts)
    next
      case (Suc j)
      with Cons.prems sts have "j < length rest" by simp
      from Cons.IH[OF rest this] show ?thesis by (simp add: sts Suc)
    qed
  qed
qed

lemma to_statistics_hourly_state:
  fixes rs :: "('a::plus) reading list"
  assumes "to_statistics lt (group_hourly env rs) cum ts = Inr stats" and "s \<in> set stats"
  shows "hourly_usage env rs (stat_start s) = Some (stat_state s)"
proof -
  from to_statistics_states[OF assms(1)] assms(2)
  have "map_of (group_hourly env rs) (stat_start s) = Some (stat_state s)"
    by (induction stats) auto
  then show ?thesis
    by (simp add: group_hourly_map_of)
qed

lemma read_last_sum:
  "read_last (statistic_id_of (DOMAIN env) mprn)
      (get_last_statistics env (statistic_id_of (DOMAIN env) mprn)) = Inr (lt, ls) \<Longrightarrow>
   ls = stored_last_sum env mprn"
  by (auto simp: read_last_def stored_last_sum_def stored_last_def Let_def
      split: option.splits list.splits if_splits)

lemma read_last_time:
  "read_last (statistic_id_of (DOMAIN env) mprn)
      (get_last_statistics env (statistic_id_of (DOMAIN env) mprn)) = Inr (lt, ls) \<Longrightarrow>
   lt = (case stored_last env mprn of
           None \<Rightarrow> None
         | Some row \<Rightarrow> if stored_last_sum env mprn = 0 then None else Some (row_start row))"
  by (auto simp: read_last_def stored_last_sum_def stored_last_def Let_def
      split: option.splits list.splits if_splits)

lemma import_unfold:
  assumes "async_import_statistics env mprn data = Inr (Some (md, stats))"
  obtains lt where
    "read_last (statistic_id_of (DOMAIN env) mprn)
        (get_last_statistics env (statistic_id_of (DOMAIN env) mprn)) = Inr (lt, stored_last_sum env mprn)"
    "to_statistics lt (group_hourly env (readings data)) (stored_last_sum env mprn)
        (sort (map fst (group_hourly env (readings data)))) = Inr stats"
    "md = metadata_of (DOMAIN env) mprn" "stats \<noteq> []"
proof -
  from assms obtain lt ls where
    rl: "read_last (statistic_id_of (DOMAIN env) mprn)
        (get_last_statistics env (statistic_id_of (DOMAIN env) mprn)) = Inr (lt, ls)"
    and ts: "to_statistics lt (group_hourly env (readings data)) ls
        (sort (map fst (group_hourly env (readings data)))) = Inr stats"
    and md: "md = metadata_of (DOMAIN env) mprn" "stats \<noteq> []"
    by (auto simp: async_import_statistics_def Let_def split: sum.splits if_splits prod.splits)
  from read_last_sum[OF rl] rl ts md that show thesis by blast
qed

lemma import_total:
  fixes env :: "('a::{zero,plus}) sensor_env"
  assumes "read_last (statistic_id_of (DOMAIN env) mprn)
      (get_last_statistics env (statistic_id_of (DOMAIN env) mprn)) = Inr (lt, ls)"
  obtains stats where
    "to_statistics lt (group_hourly env (readings data)) ls
        (sort (map fst (group_hourly env (readings data)))) = Inr stats"
    "async_import_statistics env mprn data =
       (if stats = [] then Inr None else Inr (Some (metadata_of (DOMAIN env) mprn, stats)))"
proof -
  let ?hr = "group_hourly env (readings data)"
  have "set (sort (map fst ?hr)) \<subseteq> fst ` set ?hr" by simp
  from to_statistics_total[OF this] obtain stats where
    ts: "to_statistics lt ?hr ls (sort (map fst ?hr)) = Inr stats" by blast
  with assms have "async_import_statistics env mprn data =
       (if stats = [] then Inr None else Inr (Some (metadata_of (DOMAIN env) mprn, stats)))"
    by (simp add: async_import_statistics_def Let_def)
  with ts that show thesis by blast
qed

section \<open>The importer on the example\<close>

lemmas example_defs =
  example_strptime_def example_localize_def example_store_def example_env_def
  example_reading_def example_data_def

lemmas importer_defs =
  async_import_statistics_def statistic_id_of_def metadata_of_def read_last_def
  group_hourly_def hourly_step_def reading_time_of_def replace_hour_def already_have_def

lemma example_run_10:
  "async_import_statistics (example_env (example_store 10)) ''10012345678'' example_data =
     Inr (Some (metadata_of ''esb_integration'' ''10012345678'',
       [\<lparr>stat_start = 1704070800000000, stat_sum = 43/4, stat_state = 3/4\<rparr>,
        \<lparr>stat_start = 1704074400000000, stat_sum = 47/4, stat_state = 1\<rparr>]))"
  by (simp add: example_defs importer_defs)

lemma example_run_0:
  "async_import_statistics (example_env (example_store 0)) ''10012345678'' example_data =
     Inr (Some (metadata_of ''esb_integration'' ''10012345678'',
       [\<lparr>stat_start = 1704067200000000, stat_sum = 1/4, stat_state = 1/4\<rparr>,
        \<lparr>stat_start = 1704070800000000, stat_sum = 1, stat_state = 3/4\<rparr>,
        \<lparr>stat_start = 1704074400000000, stat_sum = 2, stat_state = 1\<rparr>]))"
  by (simp add: example_defs importer_defs)

lemma example_stored_last:
  "stored_last (example_env (example_store s)) ''10012345678'' =
     Some \<lparr>row_start = 1704067200000000, row_sum = Some s\<rparr>"
  by (simp add: stored_last_def example_defs statistic_id_of_def)

lemma example_stored_last_sum:
  "stored_last_sum (example_env (example_store s)) ''10012345678'' = s"
  by (simp add: stored_last_sum_def example_stored_last)

section \<open>Claims about the importer\<close>

text \<open>
  C1. Whenever the importer hands statistics to the store, they are in strictly
  increasing order of start time; the state of each is the usage of its hour; and the
  sum of the k-th (counting from 0) is the sum of the most recent stored statistic, 0
  when there is none, to which the usages of the emitted hours up to and including it
  are added one after the other, as the code adds them.
\<close>

theorem cumulative_sum_continued:
  fixes env :: "('a::{zero,plus}) sensor_env"
  assumes "async_import_statistics env mprn data = Inr (Some (md, stats))"
  shows "sorted_wrt (<) (map stat_start stats) \<and>
         (\<forall>k < length stats.
            hourly_usage env (readings data) (stat_start (stats ! k)) = Some (stat_state (stats ! k)) \<and>
            stat_sum (stats ! k) =
              foldl (+) (stored_last_sum env mprn) (map stat_state (take (Suc k) stats)))"
proof -
  let ?hr = "group_hourly env (readings data)"
  from assms obtain lt where
    ts: "to_statistics lt ?hr (stored_last_sum env mprn) (sort (map fst ?hr)) = Inr stats"
    by (rule import_unfold)
  have starts: "map stat_start stats = filter (\<lambda>t. \<not> already_have lt t) (sort (map fst ?hr))"
    by (rule to_statistics_starts[OF ts])
  have sorted: "sorted_wrt (<) (map stat_start stats)"
    unfolding starts by (rule sorted_wrt_filter_strict[OF sorted_keys_strict])
  from sorted to_statistics_hourly_state[OF ts] to_statistics_running_sum[OF ts]
  show ?thesis by simp
qed

text \<open>
  On the example the recorder holds the sum 10; the hours 01:00 and 02:00 are emitted
  with usage 3/4 and 1 and sums 43/4 and 47/4.
\<close>

theorem cumulative_sum_continued_witness:
  "async_import_statistics (example_env (example_store 10)) ''10012345678'' example_data =
     Inr (Some (metadata_of ''esb_integration'' ''10012345678'',
       [\<lparr>stat_start = 1704070800000000, stat_sum = 43/4, stat_state = 3/4\<rparr>,
        \<lparr>stat_start = 1704074400000000, stat_sum = 47/4, stat_state = 1\<rparr>])) \<and>
   stored_last_sum (example_env (example_store 10)) ''10012345678'' = 10 \<and>
   hourly_usage (example_env (example_store 10)) (readings example_data) 1704070800000000 = Some (3/4) \<and>
   hourly_usage (example_env (example_store 10)) (readings example_data) 1704074400000000 = Some 1 \<and>
   (47/4 :: real) = foldl (+) 10 [3/4, 1]"
proof -
  let ?E = "example_env (example_store 10)"
  let ?stats = "[\<lparr>stat_start = 1704070800000000, stat_sum = 43/4 :: real, stat_state = 3/4\<rparr>,
        \<lparr>stat_start = 1704074400000000, stat_sum = 47/4, stat_state = 1\<rparr>]"
  note run = example_run_10
  from cumulative_sum_continued[OF run]
  have all: "\<forall>k < length ?stats.
            hourly_usage ?E (readings example_data) (stat_start (?stats ! k)) = Some (stat_state (?stats ! k)) \<and>
            stat_sum (?stats ! k) =
              foldl (+) (stored_last_sum ?E ''10012345678'') (map stat_state (take (Suc k) ?stats))"
    by (rule conjunct2)
  have l0: "(0::nat) < length ?stats" and l1: "(1::nat) < length ?stats"
    by simp_all
  from all[rule_format, OF l0]
  have k0: "hourly_usage ?E (readings example_data) 1704070800000000 = Some (3/4)"
    by simp
  from all[rule_format, OF l1]
  have k1: "hourly_usage ?E (readings example_data) 1704074400000000 = Some 1"
    and s1: "(47/4 :: real) = foldl (+) (stored_last_sum ?E ''10012345678'') [3/4, 1]"
    by simp_all
  from s1 have "(47/4 :: real) = foldl (+) 10 [3/4, 1]"
    by (simp only: example_stored_last_sum)
  with k0 k1 run show ?thesis
    by (simp only: example_stored_last_sum simp_thms)
qed

text \<open>
  C2, as the code has it. When the most recent stored statistic has a sum other than
  0, the hours handed to the store are exactly the hours of the readings that start
  strictly after it: no hour at or before its start is emitted again.
\<close>

theorem only_later_hours_imported:
  fixes env :: "('a::{zero,plus}) sensor_env"
  assumes "async_import_statistics env mprn data = Inr (Some (md, stats))"
    and "stored_last env mprn = Some row"
    and "stored_last_sum env mprn \<noteq> 0"
  shows "map stat_start stats =
           filter (\<lambda>t. row_start row < t) (sort (map fst (group_hourly env (readings data)))) \<and>
         (\<forall>st \<in> set stats. row_start row < stat_start st)"
proof -
  let ?hr = "group_hourly env (readings data)"
  from assms(1) obtain lt where
    rl: "read_last (statistic_id_of (DOMAIN env) mprn)
        (get_last_statistics env (statistic_id_of (DOMAIN env) mprn)) = Inr (lt, stored_last_sum env mprn)"
    and ts: "to_statistics lt ?hr (stored_last_sum env mprn) (sort (map fst ?hr)) = Inr stats"
    by (rule import_unfold)
  from read_last_time[OF rl] assms(2,3) have lt: "lt = Some (row_start row)" by simp
  have starts: "map stat_start stats = filter (\<lambda>t. row_start row < t) (sort (map fst ?hr))"
    using to_statistics_starts[OF ts] by (simp add: lt already_have_def not_le)
  have "row_start row < stat_start st" if "st \<in> set stats" for st
  proof -
    from that have "stat_start st \<in> set (map stat_start stats)" by simp
    then show ?thesis unfolding starts by simp
  qed
  with starts show ?thesis by blast
qed

text \<open>
  On the example the stored statistic starts at 00:00 with sum 10; of the hours
  00:00, 01:00 and 02:00 only the last two are emitted.
\<close>

theorem only_later_hours_imported_witness:
  "async_import_statistics (example_env (example_store 10)) ''10012345678'' example_data =
     Inr (Some (metadata_of ''esb_integration'' ''10012345678'',
       [\<lparr>stat_start = 1704070800000000, stat_sum = 43/4, stat_state = 3/4\<rparr>,
        \<lparr>stat_start = 1704074400000000, stat_sum = 47/4, stat_state = 1\<rparr>])) \<and>
   stored_last (example_env (example_store 10)) ''10012345678'' =
     Some \<lparr>row_start = 1704067200000000, row_sum = Some 10\<rparr> \<and>
   stored_last_sum (example_env (example_store 10)) ''10012345678'' \<noteq> 0 \<and>
   [1704070800000000, 1704074400000000] =
     filter (\<lambda>t. 1704067200000000 < t)
       (sort (map fst (group_hourly (example_env (example_store 10)) (readings example_data)))) \<and>
   map fst (group_hourly (example_env (example_store 10)) (readings example_data)) =
     [1704067200000000, 1704070800000000, 1704074400000000]"
proof -
  have nz: "stored_last_sum (example_env (example_store 10)) ''10012345678'' \<noteq> 0"
    by (simp add: example_stored_last_sum)
  have keys: "map fst (group_hourly (example_env (example_store 10)) (readings example_data)) =
     [1704067200000000, 1704070800000000, 1704074400000000]"
    by (simp add: example_defs importer_defs)
  from only_later_hours_imported[OF example_run_10 example_stored_last nz] nz keys
  show ?thesis
    using example_run_10 example_stored_last by simp
qed

text \<open>
  C2 fails as stated for a stored statistic whose sum is 0 (lines 127-130 drop
  \<open>last_time\<close> then): the hour 00:00, which is the start of the stored statistic, is
  emitted again.
\<close>

theorem stored_zero_sum_counterexample:
  "stored_last (example_env (example_store 0)) ''10012345678'' =
     Some \<lparr>row_start = 1704067200000000, row_sum = Some 0\<rparr> \<and>
   async_import_statistics (example_env (example_store 0)) ''10012345678'' example_data =
     Inr (Some (metadata_of ''esb_integration'' ''10012345678'',
       [\<lparr>stat_start = 1704067200000000, stat_sum = 1/4, stat_state = 1/4\<rparr>,
        \<lparr>stat_start = 1704070800000000, stat_sum = 1, stat_state = 3/4\<rparr>,
        \<lparr>stat_start = 1704074400000000, stat_sum = 2, stat_state = 1\<rparr>])) \<and>
   stat_start \<lparr>stat_start = 1704067200000000, stat_sum = 1/4 :: real, stat_state = 1/4\<rparr>
     \<le> row_start \<lparr>row_start = 1704067200000000, row_sum = Some (0::real)\<rparr>"
  using example_run_0 example_stored_last[of 0] by simp

text \<open>
  C3. A reading whose date parses is assigned to the hour obtained by setting minute,
  second and microsecond to 0; a reading whose date is missing, empty or unparseable
  gets no hour and leaves the buckets as they are, so that dropping such readings
  changes nothing; the bucket of an hour holds the usage of the readings assigned to
  it, added from the first to the last as the code adds them, and there is no bucket
  for an hour without readings; and the state of every emitted statistic is that sum
  for its hour.
\<close>

theorem hourly_buckets:
  fixes env :: "('a::{zero,plus}) sensor_env" and r r' :: "'a reading"
  shows "(parses_as env r dt \<longrightarrow>
            reading_time_of env r =
              Some (localize env (dt\<lparr>minute := 0, second := 0, microsecond := 0\<rparr>))) \<and>
         (unparseable env r' \<longrightarrow> reading_time_of env r' = None \<and> hourly_step env hr r' = hr) \<and>
         group_hourly env (filter (\<lambda>r. \<not> unparseable env r) (readings data)) =
           group_hourly env (readings data) \<and>
         map_of (group_hourly env (readings data)) t =
            (case map usage (filter (\<lambda>r. reading_time_of env r = Some t) (readings data)) of
               [] \<Rightarrow> None
             | u # us \<Rightarrow> Some (foldl (+) u us)) \<and>
         (async_import_statistics env mprn data = Inr (Some (md, stats)) \<and> st \<in> set stats \<longrightarrow>
            (\<exists>u us.
               map usage (filter (\<lambda>r. reading_time_of env r = Some (stat_start st)) (readings data)) =
                 u # us \<and>
               stat_state st = foldl (+) u us))"
proof -
  have a: "reading_time_of env r = Some (localize env (dt\<lparr>minute := 0, second := 0, microsecond := 0\<rparr>))"
    if "parses_as env r dt"
    using that by (rule parses_as_time)
  have b: "reading_time_of env r' = None \<and> hourly_step env hr r' = hr"
    if "unparseable env r'"
    using that by (simp add: unparseable_iff hourly_step_def)
  have c: "group_hourly env (filter (\<lambda>r. \<not> unparseable env r) (readings data)) =
           group_hourly env (readings data)"
    by (rule group_hourly_filter)
  have d: "map_of (group_hourly env (readings data)) t =
            (case map usage (filter (\<lambda>r. reading_time_of env r = Some t) (readings data)) of
               [] \<Rightarrow> None
             | u # us \<Rightarrow> Some (foldl (+) u us))"
    by (simp add: group_hourly_map_of hourly_usage_def)
  have e: "\<exists>u us.
               map usage (filter (\<lambda>r. reading_time_of env r = Some (stat_start st)) (readings data)) =
                 u # us \<and>
               stat_state st = foldl (+) u us"
    if "async_import_statistics env mprn data = Inr (Some (md, stats))" "st \<in> set stats"
  proof -
    from that(1) obtain lt where
      "to_statistics lt (group_hourly env (readings data)) (stored_last_sum env mprn)
          (sort (map fst (group_hourly env (readings data)))) = Inr stats"
      by (rule import_unfold)
    from to_statistics_hourly_state[OF this that(2)] show ?thesis
      by (auto simp: hourly_usage_def split: list.splits)
  qed
  from a b c d e show ?thesis by blast
qed

text \<open>
  On the example the readings of 01:00 and 01:30 fall into the hour 01:00, whose value
  is 1/2 + 1/4, and the reading dated \<open>garbage\<close> is skipped.
\<close>

theorem hourly_buckets_witness:
  "parses_as (example_env (example_store 10)) (example_reading ''01-01-2024 01:30'' (1/4))
     \<lparr>year = 2024, month = 1, day = 1, hour = 1, minute = 30, second = 0, microsecond = 0\<rparr> \<and>
   reading_time_of (example_env (example_store 10)) (example_reading ''01-01-2024 01:30'' (1/4)) =
     Some 1704070800000000 \<and>
   unparseable (example_env (example_store 10)) (example_reading ''garbage'' 5) \<and>
   reading_time_of (example_env (example_store 10)) (example_reading ''garbage'' 5) = None \<and>
   map usage (filter (\<lambda>r. reading_time_of (example_env (example_store 10)) r = Some 1704070800000000)
       (readings example_data)) = [1/2, 1/4] \<and>
   map_of (group_hourly (example_env (example_store 10)) (readings example_data)) 1704070800000000 =
     Some (foldl (+) (1/2) [1/4]) \<and>
   async_import_statistics (example_env (example_store 10)) ''10012345678'' example_data =
     Inr (Some (metadata_of ''esb_integration'' ''10012345678'',
       [\<lparr>stat_start = 1704070800000000, stat_sum = 43/4, stat_state = 3/4\<rparr>,
        \<lparr>stat_start = 1704074400000000, stat_sum = 47/4, stat_state = 1\<rparr>])) \<and>
   (3/4 :: real) = foldl (+) (1/2) [1/4]"
proof -
  let ?E = "example_env (example_store 10)"
  let ?dt = "\<lparr>year = 2024, month = 1, day = 1, hour = 1, minute = 30, second = 0, microsecond = 0\<rparr>"
  let ?s = "\<lparr>stat_start = 1704070800000000, stat_sum = 43/4 :: real, stat_state = 3/4\<rparr>"
  have p: "parses_as ?E (example_reading ''01-01-2024 01:30'' (1/4)) ?dt"
    by (simp add: parses_as_def example_defs)
  have u: "unparseable ?E (example_reading ''garbage'' 5)"
    by (simp add: unparseable_def example_defs)
  have f: "map usage (filter (\<lambda>r. reading_time_of ?E r = Some 1704070800000000)
       (readings example_data)) = [1/2, 1/4]"
    by (simp add: example_defs reading_time_of_def replace_hour_def)
  from hourly_buckets[where env = ?E and data = example_data and mprn = "''10012345678''"
      and r = "example_reading ''01-01-2024 01:30'' (1/4)" and dt = ?dt
      and r' = "example_reading ''garbage'' 5" and st = ?s and t = 1704070800000000
      and md = "metadata_of ''esb_integration'' ''10012345678''"
      and stats = "[?s, \<lparr>stat_start = 1704074400000000, stat_sum = 47/4, stat_state = 1\<rparr>]"]
    p u f example_run_10
  show ?thesis
    by (simp add: example_env_def example_localize_def)
qed

text \<open>
  C6. The statistic id written to the store is \<open>DOMAIN\<close>, \<open>:esb_\<close>, the MPRN and
  \<open>_consumption\<close>; two runs for the same MPRN write the same id, whatever the
  readings and the stored statistics; and the run reads the stored statistics only
  under that id: changing what the recorder answers elsewhere changes nothing.
\<close>

theorem statistic_id_stable:
  fixes env env' :: "('a::{zero,plus}) sensor_env"
  shows "(async_import_statistics env mprn data = Inr (Some (md, stats)) \<longrightarrow>
            md_statistic_id md = DOMAIN env @ '':esb_'' @ mprn @ ''_consumption'') \<and>
         (DOMAIN env' = DOMAIN env \<and>
            async_import_statistics env mprn data = Inr (Some (md, stats)) \<and>
            async_import_statistics env' mprn data' = Inr (Some (md', stats')) \<longrightarrow>
            md_statistic_id md' = md_statistic_id md) \<and>
         (g (statistic_id_of (DOMAIN env) mprn) (statistic_id_of (DOMAIN env) mprn) =
                 get_last_statistics env (statistic_id_of (DOMAIN env) mprn)
                   (statistic_id_of (DOMAIN env) mprn) \<longrightarrow>
              async_import_statistics (env\<lparr>get_last_statistics := g\<rparr>) mprn data =
                async_import_statistics env mprn data)"
proof -
  have md: "md_statistic_id m = DOMAIN e @ '':esb_'' @ mprn @ ''_consumption''"
    if "async_import_statistics e mprn d = Inr (Some (m, s))"
    for e :: "'a sensor_env" and d m s
    using that by (rule import_unfold) (simp add: metadata_of_def statistic_id_of_def)
  have dep: "async_import_statistics (env\<lparr>get_last_statistics := g\<rparr>) mprn data =
                async_import_statistics env mprn data"
    if "g (statistic_id_of (DOMAIN env) mprn) (statistic_id_of (DOMAIN env) mprn) =
          get_last_statistics env (statistic_id_of (DOMAIN env) mprn) (statistic_id_of (DOMAIN env) mprn)"
  proof -
    have "group_hourly (env\<lparr>get_last_statistics := g\<rparr>) (readings data) =
          group_hourly env (readings data)"
      by (rule group_hourly_store)
    moreover have "read_last (statistic_id_of (DOMAIN env) mprn) (g (statistic_id_of (DOMAIN env) mprn)) =
        read_last (statistic_id_of (DOMAIN env) mprn)
          (get_last_statistics env (statistic_id_of (DOMAIN env) mprn))"
      using that by (simp add: read_last_def)
    ultimately show ?thesis
      by (simp add: async_import_statistics_def Let_def split: sum.splits prod.splits)
  qed
  have two: "md_statistic_id md' = md_statistic_id md"
    if "DOMAIN env' = DOMAIN env"
      "async_import_statistics env mprn data = Inr (Some (md, stats))"
      "async_import_statistics env' mprn data' = Inr (Some (md', stats'))"
    using md[OF that(2)] md[OF that(3)] that(1) by simp
  from md dep two show ?thesis by blast
qed

text \<open>
  On the example two runs over recorders holding the sums 10 and 0 write the id
  \<open>esb_integration:esb_10012345678_consumption\<close>, and a recorder that is empty under
  every other id gives the same run.
\<close>

theorem statistic_id_stable_witness:
  "async_import_statistics (example_env (example_store 10)) ''10012345678'' example_data =
     Inr (Some (metadata_of ''esb_integration'' ''10012345678'',
       [\<lparr>stat_start = 1704070800000000, stat_sum = 43/4, stat_state = 3/4\<rparr>,
        \<lparr>stat_start = 1704074400000000, stat_sum = 47/4, stat_state = 1\<rparr>])) \<and>
   async_import_statistics (example_env (example_store 0)) ''10012345678'' example_data =
     Inr (Some (metadata_of ''esb_integration'' ''10012345678'',
       [\<lparr>stat_start = 1704067200000000, stat_sum = 1/4, stat_state = 1/4\<rparr>,
        \<lparr>stat_start = 1704070800000000, stat_sum = 1, stat_state = 3/4\<rparr>,
        \<lparr>stat_start = 1704074400000000, stat_sum = 2, stat_state = 1\<rparr>])) \<and>
   md_statistic_id (metadata_of ''esb_integration'' ''10012345678'') =
     ''esb_integration:esb_10012345678_consumption'' \<and>
   async_import_statistics
     ((example_env (example_store 10))\<lparr>get_last_statistics :=
         \<lambda>sid. if sid = ''esb_integration:esb_10012345678_consumption''
                then example_store 10 sid else Map.empty\<rparr>)
     ''10012345678'' example_data =
   async_import_statistics (example_env (example_store 10)) ''10012345678'' example_data"
proof -
  let ?E = "example_env (example_store 10)"
  let ?g = "\<lambda>sid. if sid = ''esb_integration:esb_10012345678_consumption''
                then example_store 10 sid else Map.empty"
  have g: "?g (statistic_id_of (DOMAIN ?E) ''10012345678'') (statistic_id_of (DOMAIN ?E) ''10012345678'') =
      get_last_statistics ?E (statistic_id_of (DOMAIN ?E) ''10012345678'')
        (statistic_id_of (DOMAIN ?E) ''10012345678'')"
    by (simp add: example_env_def statistic_id_of_def)
  from statistic_id_stable[where env = ?E and mprn = "''10012345678''" and data = example_data
      and env' = "example_env (example_store 0)" and data' = example_data and g = ?g
      and md = "metadata_of ''esb_integration'' ''10012345678''"
      and stats = "[\<lparr>stat_start = 1704070800000000, stat_sum = 43/4, stat_state = 3/4\<rparr>,
        \<lparr>stat_start = 1704074400000000, stat_sum = 47/4, stat_state = 1\<rparr>]"]
    g example_run_10 example_run_0
  show ?thesis
    by (simp add: example_env_def)
qed

text \<open>
  C9. When the most recent stored statistic has sum 0, the run is the run over an
  empty recorder: every hour of the readings is emitted, among them the hours at or
  before the start of the stored statistic, and the sums start from 0: the sum of the
  k-th statistic is 0 to which the usages of the hours up to and including it are
  added one after the other.
\<close>

theorem zero_sum_is_no_previous_data:
  fixes env :: "('a::{zero,plus}) sensor_env"
  assumes "stored_last env mprn = Some row" and "row_sum row = Some 0"
  shows "async_import_statistics env mprn data =
           async_import_statistics (env\<lparr>get_last_statistics := \<lambda>_. Map.empty\<rparr>) mprn data \<and>
         (\<exists>stats.
            async_import_statistics env mprn data =
              (if stats = [] then Inr None else Inr (Some (metadata_of (DOMAIN env) mprn, stats))) \<and>
            map stat_start stats = sort (map fst (group_hourly env (readings data))) \<and>
            set (map stat_start stats) =
              {t. \<exists>r \<in> set (readings data). reading_time_of env r = Some t} \<and>
            (\<forall>k < length stats.
               hourly_usage env (readings data) (stat_start (stats ! k)) = Some (stat_state (stats ! k)) \<and>
               stat_sum (stats ! k) = foldl (+) 0 (map stat_state (take (Suc k) stats))))"
proof -
  let ?sid = "statistic_id_of (DOMAIN env) mprn"
  let ?env0 = "env\<lparr>get_last_statistics := \<lambda>_. Map.empty\<rparr>"
  let ?hr = "group_hourly env (readings data)"
  from assms have rl: "read_last ?sid (get_last_statistics env ?sid) = Inr (None, 0)"
    by (auto simp: read_last_def stored_last_def split: option.splits list.splits)
  have rl0: "read_last ?sid (get_last_statistics ?env0 ?sid) = Inr (None, 0::'a)"
    by (simp add: read_last_def)
  have hr0: "group_hourly ?env0 (readings data) = ?hr"
    by (rule group_hourly_store)
  have same: "async_import_statistics env mprn data = async_import_statistics ?env0 mprn data"
    using rl rl0 hr0 by (simp add: async_import_statistics_def Let_def)
  from rl obtain stats where
    ts: "to_statistics None ?hr (0::'a) (sort (map fst ?hr)) = Inr stats"
    and res: "async_import_statistics env mprn data =
       (if stats = [] then Inr None else Inr (Some (metadata_of (DOMAIN env) mprn, stats)))"
    by (rule import_total)
  have starts: "map stat_start stats = sort (map fst ?hr)"
    using to_statistics_starts[OF ts] by (simp add: already_have_def)
  have keys: "set (map stat_start stats) =
      {t. \<exists>r \<in> set (readings data). reading_time_of env r = Some t}"
    unfolding starts using group_hourly_keys[of env "readings data"] by simp
  have sums: "hourly_usage env (readings data) (stat_start (stats ! k)) = Some (stat_state (stats ! k)) \<and>
      stat_sum (stats ! k) = foldl (+) 0 (map stat_state (take (Suc k) stats))"
    if k: "k < length stats" for k
    using to_statistics_running_sum[OF ts k] to_statistics_hourly_state[OF ts, of "stats ! k"] k
    by simp
  from same res starts keys sums show ?thesis by blast
qed

text \<open>
  On the example the stored statistic at 00:00 has sum 0 and the hours 00:00, 01:00
  and 02:00 are emitted with sums 1/4, 1 and 2.
\<close>

theorem zero_sum_is_no_previous_data_witness:
  "stored_last (example_env (example_store 0)) ''10012345678'' =
     Some \<lparr>row_start = 1704067200000000, row_sum = Some 0\<rparr> \<and>
   async_import_statistics (example_env (example_store 0)) ''10012345678'' example_data =
     async_import_statistics ((example_env (example_store 0))\<lparr>get_last_statistics := \<lambda>_. Map.empty\<rparr>)
       ''10012345678'' example_data \<and>
   async_import_statistics (example_env (example_store 0)) ''10012345678'' example_data =
     Inr (Some (metadata_of ''esb_integration'' ''10012345678'',
       [\<lparr>stat_start = 1704067200000000, stat_sum = 1/4, stat_state = 1/4\<rparr>,
        \<lparr>stat_start = 1704070800000000, stat_sum = 1, stat_state = 3/4\<rparr>,
        \<lparr>stat_start = 1704074400000000, stat_sum = 2, stat_state = 1\<rparr>])) \<and>
   (2 :: real) = foldl (+) 0 [1/4, 3/4, 1]"
proof -
  have "row_sum \<lparr>row_start = 1704067200000000, row_sum = Some (0::real)\<rparr> = Some 0" by simp
  from zero_sum_is_no_previous_data[OF example_stored_last this, of example_data]
  show ?thesis using example_run_0 example_stored_last[of 0] by simp
qed

section \<open>The session client: the exchange\<close>

lemma bind_send:
  "session_bind (session_send net r) f s =
     (case net (s @ [r]) of Inl e \<Rightarrow> (s @ [r], Inl e) | Inr x \<Rightarrow> f x (s @ [r]))"
  by (simp add: session_bind_def session_send_def split: sum.splits)

lemma bind_lift:
  "session_bind (session_lift v) f s = (case v of Inl e \<Rightarrow> (s, Inl e) | Inr x \<Rightarrow> f x s)"
  by (simp add: session_bind_def session_lift_def split: sum.splits)

lemma lift_apply: "session_lift v s = (s, v)"
  by (simp add: session_lift_def)

lemma fetch_success:
  assumes "fetch lib net self [] = (sent, Inr request_8_response)"
  obtains x1 j1 csrf tx x2 j2 x3 j3 url st ci cd x4 j4 x5 j5 x6 j6 x7 j7 tok j8 where
    "net [request_1] = Inr (x1, j1)"
    "settings_of lib x1 = Inr (csrf, tx)"
    "net [request_1, request_2 self tx csrf j1] = Inr (x2, j2)"
    "net [request_1, request_2 self tx csrf j1, request_3 self tx csrf j2] = Inr (x3, j3)"
    "auth_form_of lib x3 = Inr (url, st, ci, cd)"
    "net [request_1, request_2 self tx csrf j1, request_3 self tx csrf j2,
         request_4 self url st ci cd] = Inr (x4, j4)"
    "net [request_1, request_2 self tx csrf j1, request_3 self tx csrf j2,
         request_4 self url st ci cd, request_5 self j4] = Inr (x5, j5)"
    "net [request_1, request_2 self tx csrf j1, request_3 self tx csrf j2,
         request_4 self url st ci cd, request_5 self j4,
         request_6 self j4 (map_of j5 ''.AspNetCore.Cookies'')] = Inr (x6, j6)"
    "net [request_1, request_2 self tx csrf j1, request_3 self tx csrf j2,
         request_4 self url st ci cd, request_5 self j4,
         request_6 self j4 (map_of j5 ''.AspNetCore.Cookies''), request_7 self j4] = Inr (x7, j7)"
    "download_token_of lib x7 = Inr tok"
    "net [request_1, request_2 self tx csrf j1, request_3 self tx csrf j2,
         request_4 self url st ci cd, request_5 self j4,
         request_6 self j4 (map_of j5 ''.AspNetCore.Cookies''), request_7 self j4,
         request_8 self tok] = Inr (request_8_response, j8)"
    "sent = [request_1, request_2 self tx csrf j1, request_3 self tx csrf j2,
         request_4 self url st ci cd, request_5 self j4,
         request_6 self j4 (map_of j5 ''.AspNetCore.Cookies''), request_7 self j4,
         request_8 self tok]"
  using assms
  by (auto simp: fetch_def bind_send bind_lift lift_apply split: sum.splits prod.splits)

lemma method_simps:
  "req_method request_1 = GET"
  "req_method (request_2 self tx csrf j1) = POST"
  "req_method (request_3 self tx csrf j2) = GET"
  "req_method (request_4 self url st ci cd) = POST"
  "req_method (request_5 self j4) = GET"
  "req_method (request_6 self j4 asp) = GET"
  "req_method (request_7 self j4) = GET"
  "req_method (request_8 self tok) = POST"
  by (simp_all add: request_1_def request_2_def request_3_def request_4_def request_5_def
      request_6_def request_7_def request_8_def)

lemma fetch_methods:
  assumes "fetch lib net self [] = (sent, r)"
  shows "map req_method sent = take (length sent) eight_methods \<and> 1 \<le> length sent \<and> length sent \<le> 8"
  using assms
  by (auto simp: fetch_def bind_send bind_lift lift_apply method_simps eight_methods_def
      split: sum.splits prod.splits)

lemma fetch_login_trace:
  assumes "fetch lib net self [] = (sent, r)"
    and "net [request_1] = Inr (x1, j1)"
    and "settings_of lib x1 = Inr (csrf, tx)"
  shows "2 \<le> length sent \<and> sent ! 0 = request_1 \<and> sent ! 1 = request_2 self tx csrf j1 \<and>
         (\<forall>x2 j2. net [request_1, request_2 self tx csrf j1] = Inr (x2, j2) \<longrightarrow>
            3 \<le> length sent \<and> sent ! 2 = request_3 self tx csrf j2)"
  using assms
  by (auto simp: fetch_def bind_send bind_lift lift_apply split: sum.splits prod.splits)

lemma request_2_fields:
  "req_method (request_2 self tx csrf j1) = POST"
  "req_url (request_2 self tx csrf j1) =
     ''https://login.esbnetworks.ie/esbntwkscustportalprdb2c01.onmicrosoft.com/B2C_1A_signup_signin/SelfAsserted?tx=''
       @ tx @ ''&p=B2C_1A_signup_signin''"
  "map_of (req_headers (request_2 self tx csrf j1)) ''x-csrf-token'' = Some csrf"
  "map_of (req_cookies (request_2 self tx csrf j1)) ''x-ms-cpim-csrf'' = Some (map_of j1 ''x-ms-cpim-csrf'')"
  "map_of (req_cookies (request_2 self tx csrf j1)) ''x-ms-cpim-trans'' = Some (map_of j1 ''x-ms-cpim-trans'')"
  by (simp_all add: request_2_def)

lemma request_3_fields:
  "req_method (request_3 self tx csrf j2) = GET"
  "map_of (req_params (request_3 self tx csrf j2)) ''csrf_token'' = Some csrf"
  "map_of (req_params (request_3 self tx csrf j2)) ''tx'' = Some tx"
  "map_of (req_cookies (request_3 self tx csrf j2)) ''x-ms-cpim-csrf'' = Some (map_of j2 ''x-ms-cpim-csrf'')"
  "map_of (req_cookies (request_3 self tx csrf j2)) ''x-ms-cpim-trans'' = Some (map_of j2 ''x-ms-cpim-trans'')"
  by (simp_all add: request_3_def)

section \<open>The session client: parsing\<close>

lemma row_reading_error:
  "row_reading fl row = Inl e \<Longrightarrow> e = TypeError \<or> e = ValueError"
  by (auto simp: row_reading_def read_value_def Let_def split: option.splits sum.splits)

lemma row_reading_Inl_iff: "row_reading fl row = Inl e \<longleftrightarrow> read_value fl row = Inl e"
  by (simp add: row_reading_def Let_def split: sum.splits)

text \<open>
  The loop over the rows in full: it raises when a row holds \<open>None\<close> as its value,
  and otherwise returns the readings of the rows that parse, with their usage added to
  the total one after the other.
\<close>

lemma process_rows_eq:
  fixes tot :: "'a::{zero,plus}"
  shows "process_rows fl rows tot rs =
     (if \<exists>row \<in> set rows. read_value fl row = Inl TypeError then Inl TypeError
      else Inr (foldl (+) tot (map usage (parsed_readings fl rows)), rs @ parsed_readings fl rows))"
proof (induction rows arbitrary: tot rs)
  case Nil
  then show ?case by (simp add: parsed_readings_def)
next
  case (Cons row rows)
  show ?case
  proof (cases "row_reading fl row")
    case (Inl e)
    from row_reading_error[OF Inl] show ?thesis
    proof
      assume "e = TypeError"
      moreover from Inl have "read_value fl row = Inl e" by (simp add: row_reading_Inl_iff)
      ultimately show ?thesis using Inl by auto
    next
      assume "e = ValueError"
      with Inl have "read_value fl row = Inl ValueError" by (simp add: row_reading_Inl_iff)
      with Inl \<open>e = ValueError\<close> show ?thesis
        by (simp add: Cons.IH parsed_readings_def)
    qed
  next
    case (Inr r)
    then have "read_value fl row \<noteq> Inl TypeError"
      by (auto simp: row_reading_def Let_def split: sum.splits)
    with Inr show ?thesis
      by (simp add: Cons.IH parsed_readings_def)
  qed
qed

lemma parse_usage_csv_result:
  fixes lib :: "('a::{zero,plus}) esb_lib"
  assumes "parse_usage_csv lib request_8_response = Inr data"
  shows "\<exists>csv_file. decode_utf8 lib (resp_content request_8_response) = Inr csv_file \<and>
           take 4 csv_file = ''MPRN'' \<and>
           readings data = parsed_readings (float_of_str lib)
              (filter (\<lambda>row. row \<noteq> []) (DictReader lib (split_on (CHR 0x0A) csv_file))) \<and>
           total_usage data = foldl (+) 0 (map usage (readings data)) \<and>
           last_updated data = now_isoformat lib"
  using assms
  by (auto simp: parse_usage_csv_def Let_def process_rows_eq split: sum.splits if_splits)

lemma cache_hit_file: "cache_hit cache = Some cached \<Longrightarrow> cache_file cache = Some (Inr cached)"
  by (auto simp: cache_hit_def split: if_splits option.splits sum.splits)

lemma get_usage_data_cached:
  "cache_hit cache = Some cached \<Longrightarrow> get_usage_data lib cache net self = ([], Inr cached)"
  by (simp add: get_usage_data_def)

lemma get_usage_data_fresh:
  "cache_hit cache = None \<Longrightarrow>
   get_usage_data lib cache net self =
     (case fetch lib net self [] of
        (sent, Inl e) \<Rightarrow> (sent, Inl (reraise e))
      | (sent, Inr request_8_response) \<Rightarrow>
          (sent, case parse_usage_csv lib request_8_response of
                   Inl e \<Rightarrow> Inl (reraise e)
                 | Inr result \<Rightarrow> Inr result))"
  by (simp add: get_usage_data_def session_bind_def lift_apply split: prod.splits sum.splits)

lemma get_usage_data_sent:
  "cache_hit cache = None \<Longrightarrow> get_usage_data lib cache net self = (sent, outcome) \<Longrightarrow>
     \<exists>r. fetch lib net self [] = (sent, r)"
  by (auto simp: get_usage_data_fresh split: prod.splits sum.splits)

lemma get_usage_data_success:
  assumes "cache_hit cache = None" and "get_usage_data lib cache net self = (sent, Inr data)"
  obtains request_8_response where
    "fetch lib net self [] = (sent, Inr request_8_response)"
    "parse_usage_csv lib request_8_response = Inr data"
  using assms by (auto simp: get_usage_data_fresh split: prod.splits sum.splits)

section \<open>The session client on the example\<close>

lemma example_settings:
  "settings_of example_lib (example_page ''<script>var SETTINGS = SETTINGS-JSON;</script>'') = Inr (''csrf-1'', ''tx-1'')"
  by (simp add: settings_of_def example_lib_def example_page_def subscript_def)

lemma example_auth_form:
  "auth_form_of example_lib (example_page ''<!DOCTYPE html PUBLIC><form id=auto>'') =
     Inr (''https://myaccount.esbnetworks.ie/signin-oidc'', ''state-1'', ''info-1'', ''code-1'')"
  by (simp add: auth_form_of_def example_lib_def example_page_def subscript_def input_value_def)

lemma example_token:
  "download_token_of example_lib (example_page ''TOKEN-JSON'') = Inr ''download-1''"
  by (simp add: download_token_of_def example_lib_def example_page_def subscript_def)

lemma example_fetch:
  "fetch example_lib (example_network csv) example_meter [] = (example_requests, Inr (example_page csv))"
  by (simp add: fetch_def bind_send bind_lift lift_apply example_network_def example_settings
      example_auth_form example_token example_requests_def example_jar_5_def)

lemma example_rows:
  "filter (\<lambda>row. row \<noteq> []) (DictReader example_lib (split_on (CHR 0x0A) example_csv)) =
     [[(''MPRN'', Some ''10012345678''), (''Meter Serial Number'', Some ''1''), (''Read Value'', Some ''0.25''),
       (''Read Type'', Some ''kW''), (''Read Date and End Time'', Some ''01-01-2024 00:30'')],
      [(''MPRN'', Some ''10012345678''), (''Meter Serial Number'', Some ''1''), (''Read Value'', Some ''n/a''),
       (''Read Type'', Some ''kW''), (''Read Date and End Time'', Some ''01-01-2024 01:00'')],
      [(''MPRN'', Some ''10012345678''), (''Meter Serial Number'', Some ''1''), (''Read Value'', Some ''0.5''),
       (''Read Type'', Some ''kW''), (''Read Date and End Time'', Some ''01-01-2024 01:30'')]]"
  by (simp add: example_lib_def example_DictReader_def example_csv_def)

lemma example_parse:
  "parse_usage_csv example_lib (example_page example_csv) = Inr example_result"
proof -
  have d: "decode_utf8 example_lib (resp_content (example_page example_csv)) = Inr example_csv"
    by (simp add: example_lib_def example_page_def)
  have m: "take 4 example_csv = ''MPRN''"
    by (simp add: example_csv_def)
  have f: "float_of_str example_lib = (\<lambda>s. if s = ''0.25'' then Some (1/4) else if s = ''0.5'' then Some (1/2)
                          else if s = ''1'' then Some 1 else None)"
    by (simp add: example_lib_def)
  have n: "now_isoformat example_lib = ''2024-01-02T03:00:00''"
    by (simp add: example_lib_def)
  show ?thesis
    unfolding parse_usage_csv_def d
    by (simp add: m example_rows f n row_reading_def read_value_def get_or_empty_def
        example_result_def)
qed

lemma example_no_cache_hit: "cache_hit example_no_cache = None"
  by (simp add: cache_hit_def example_no_cache_def)

lemma example_get_usage_data:
  "get_usage_data example_lib example_no_cache (example_network example_csv) example_meter =
     (example_requests, Inr example_result)"
  by (simp add: get_usage_data_fresh cache_hit_def example_no_cache_def example_fetch example_parse)

lemma example_parsed:
  "parsed_readings (float_of_str example_lib)
     (filter (\<lambda>row. row \<noteq> []) (DictReader example_lib (split_on (CHR 0x0A) example_csv))) =
   readings example_result"
proof -
  have f: "float_of_str example_lib = (\<lambda>s. if s = ''0.25'' then Some (1/4) else if s = ''0.5'' then Some (1/2)
                          else if s = ''1'' then Some 1 else None)"
    by (simp add: example_lib_def)
  show ?thesis
    unfolding example_rows f
    by (simp add: parsed_readings_def row_reading_def read_value_def
        get_or_empty_def example_result_def)
qed

lemma example_net_8: "example_network csv example_requests = Inr (example_page csv, example_jar_5)"
  by (simp add: example_network_def example_requests_def)

lemma example_decode: "decode_utf8 example_lib (resp_content (example_page csv)) = Inr csv"
  by (simp add: example_lib_def example_page_def)

section \<open>Claims about the session client\<close>

text \<open>
  C4, as the code has it. Unless the debug cache answers the call, the requests sent
  are an initial part of the eight steps GET, POST, GET, POST, GET, GET, GET, POST;
  and when the call returns, all eight were sent in that order, each built from the
  tokens and cookies of the earlier answers (the settings of the first page, the form
  of the confirmation page, the download token), and the readings returned are those
  of the CSV rows of the final answer, one per row that parses.
\<close>

theorem eight_step_exchange:
  fixes lib :: "('a::{zero,plus}) esb_lib"
  assumes "cache_hit cache = None"
    and "get_usage_data lib cache net self = (sent, outcome)"
  shows "map req_method sent = take (length sent) eight_methods \<and> length sent \<le> 8 \<and>
    (outcome = Inr data \<longrightarrow>
      (\<exists>x1 j1 csrf tx x2 j2 x3 j3 url st ci cd x4 j4 x5 j5 x6 j6 x7 j7 tok x8 j8 csv_file.
         net [request_1] = Inr (x1, j1) \<and>
         settings_of lib x1 = Inr (csrf, tx) \<and>
         net (take 2 sent) = Inr (x2, j2) \<and>
         net (take 3 sent) = Inr (x3, j3) \<and>
         auth_form_of lib x3 = Inr (url, st, ci, cd) \<and>
         net (take 4 sent) = Inr (x4, j4) \<and>
         net (take 5 sent) = Inr (x5, j5) \<and>
         net (take 6 sent) = Inr (x6, j6) \<and>
         net (take 7 sent) = Inr (x7, j7) \<and>
         download_token_of lib x7 = Inr tok \<and>
         net sent = Inr (x8, j8) \<and>
         sent = [request_1, request_2 self tx csrf j1, request_3 self tx csrf j2,
                 request_4 self url st ci cd, request_5 self j4,
                 request_6 self j4 (map_of j5 ''.AspNetCore.Cookies''), request_7 self j4,
                 request_8 self tok] \<and>
         decode_utf8 lib (resp_content x8) = Inr csv_file \<and>
         take 4 csv_file = ''MPRN'' \<and>
         readings data =
           parsed_readings (float_of_str lib)
             (filter (\<lambda>row. row \<noteq> []) (DictReader lib (split_on (CHR 0x0A) csv_file)))))"
proof -
  from get_usage_data_sent[OF assms] obtain r where f: "fetch lib net self [] = (sent, r)"
    by blast
  from fetch_methods[OF f]
  have m: "map req_method sent = take (length sent) eight_methods" "length sent \<le> 8"
    by simp_all
  have "\<exists>x1 j1 csrf tx x2 j2 x3 j3 url st ci cd x4 j4 x5 j5 x6 j6 x7 j7 tok x8 j8 csv_file.
         net [request_1] = Inr (x1, j1) \<and>
         settings_of lib x1 = Inr (csrf, tx) \<and>
         net (take 2 sent) = Inr (x2, j2) \<and>
         net (take 3 sent) = Inr (x3, j3) \<and>
         auth_form_of lib x3 = Inr (url, st, ci, cd) \<and>
         net (take 4 sent) = Inr (x4, j4) \<and>
         net (take 5 sent) = Inr (x5, j5) \<and>
         net (take 6 sent) = Inr (x6, j6) \<and>
         net (take 7 sent) = Inr (x7, j7) \<and>
         download_token_of lib x7 = Inr tok \<and>
         net sent = Inr (x8, j8) \<and>
         sent = [request_1, request_2 self tx csrf j1, request_3 self tx csrf j2,
                 request_4 self url st ci cd, request_5 self j4,
                 request_6 self j4 (map_of j5 ''.AspNetCore.Cookies''), request_7 self j4,
                 request_8 self tok] \<and>
         decode_utf8 lib (resp_content x8) = Inr csv_file \<and>
         take 4 csv_file = ''MPRN'' \<and>
         readings data =
           parsed_readings (float_of_str lib)
             (filter (\<lambda>row. row \<noteq> []) (DictReader lib (split_on (CHR 0x0A) csv_file)))"
    if "outcome = Inr data"
  proof -
    from assms that obtain x8 where
      f8: "fetch lib net self [] = (sent, Inr x8)" and p: "parse_usage_csv lib x8 = Inr data"
      by (auto elim: get_usage_data_success)
    from parse_usage_csv_result[OF p] obtain csv_file where
      c: "decode_utf8 lib (resp_content x8) = Inr csv_file" "take 4 csv_file = ''MPRN''"
        "readings data = parsed_readings (float_of_str lib)
             (filter (\<lambda>row. row \<noteq> []) (DictReader lib (split_on (CHR 0x0A) csv_file)))"
      by blast
    from f8 obtain x1 j1 csrf tx x2 j2 x3 j3 url st ci cd x4 j4 x5 j5 x6 j6 x7 j7 tok j8
      where h: "net [request_1] = Inr (x1, j1)"
        "settings_of lib x1 = Inr (csrf, tx)"
        "net [request_1, request_2 self tx csrf j1] = Inr (x2, j2)"
        "net [request_1, request_2 self tx csrf j1, request_3 self tx csrf j2] = Inr (x3, j3)"
        "auth_form_of lib x3 = Inr (url, st, ci, cd)"
        "net [request_1, request_2 self tx csrf j1, request_3 self tx csrf j2,
              request_4 self url st ci cd] = Inr (x4, j4)"
        "net [request_1, request_2 self tx csrf j1, request_3 self tx csrf j2,
              request_4 self url st ci cd, request_5 self j4] = Inr (x5, j5)"
        "net [request_1, request_2 self tx csrf j1, request_3 self tx csrf j2,
              request_4 self url st ci cd, request_5 self j4,
              request_6 self j4 (map_of j5 ''.AspNetCore.Cookies'')] = Inr (x6, j6)"
        "net [request_1, request_2 self tx csrf j1, request_3 self tx csrf j2,
              request_4 self url st ci cd, request_5 self j4,
              request_6 self j4 (map_of j5 ''.AspNetCore.Cookies''), request_7 self j4] = Inr (x7, j7)"
        "download_token_of lib x7 = Inr tok"
        "net [request_1, request_2 self tx csrf j1, request_3 self tx csrf j2,
              request_4 self url st ci cd, request_5 self j4,
              request_6 self j4 (map_of j5 ''.AspNetCore.Cookies''), request_7 self j4,
              request_8 self tok] = Inr (x8, j8)"
        and sent: "sent = [request_1, request_2 self tx csrf j1, request_3 self tx csrf j2,
              request_4 self url st ci cd, request_5 self j4,
              request_6 self j4 (map_of j5 ''.AspNetCore.Cookies''), request_7 self j4,
              request_8 self tok]"
      by (rule fetch_success)
    show ?thesis
      unfolding sent using h c by (intro exI conjI) simp_all
  qed
  with m show ?thesis by blast
qed

text \<open>
  On the example the eight requests are sent and the two rows with a number give the
  two readings.
\<close>

theorem eight_step_exchange_witness:
  "cache_hit example_no_cache = None \<and>
   get_usage_data example_lib example_no_cache (example_network example_csv) example_meter =
     (example_requests, Inr example_result) \<and>
   map req_method example_requests = eight_methods \<and>
   readings example_result =
     parsed_readings (float_of_str example_lib)
       (filter (\<lambda>row. row \<noteq> []) (DictReader example_lib (split_on (CHR 0x0A) example_csv)))"
proof -
  have len: "length example_requests = 8"
    by (simp add: example_requests_def)
  have em: "take 8 eight_methods = eight_methods"
    by (simp add: eight_methods_def)
  from eight_step_exchange[OF example_no_cache_hit example_get_usage_data, of example_result]
  obtain x8 j8 csv_file where
    m: "map req_method example_requests = take (length example_requests) eight_methods"
    and n: "example_network example_csv example_requests = Inr (x8, j8)"
    and d: "decode_utf8 example_lib (resp_content x8) = Inr csv_file"
    and r: "readings example_result =
      parsed_readings (float_of_str example_lib)
        (filter (\<lambda>row. row \<noteq> []) (DictReader example_lib (split_on (CHR 0x0A) csv_file)))"
    by auto
  from n have "x8 = example_page example_csv" by (simp add: example_net_8)
  with d have "csv_file = example_csv" by (simp add: example_lib_def example_page_def)
  with m r len em example_no_cache_hit example_get_usage_data show ?thesis by simp
qed

text \<open>
  C4 fails as stated when the debug cache answers (lines 32-39): the call returns the
  cached document without sending a request, and its readings are not those of the
  CSV the portal would serve.
\<close>

theorem debug_cache_counterexample:
  "get_usage_data example_lib (example_debug_cache example_cached) (example_network example_csv) example_meter =
     ([], Inr example_cached) \<and>
   readings example_cached \<noteq>
     parsed_readings (float_of_str example_lib)
       (filter (\<lambda>row. row \<noteq> []) (DictReader example_lib (split_on (CHR 0x0A) example_csv)))"
  unfolding example_parsed
  by (simp add: get_usage_data_def cache_hit_def example_debug_cache_def example_cached_def example_result_def)

text \<open>
  C7. When the first page answers and its settings hold \<open>csrf\<close> and \<open>transId\<close>,
  the second request is the login POST: it carries the token as the header
  \<open>x-csrf-token\<close>, the transaction id as \<open>tx\<close> in its URL, and the two
  \<open>x-ms-cpim\<close> cookies of the session after the first answer; and when the login
  POST is answered, the third request is the confirm GET, with the same token and
  transaction id as parameters and the two cookies of the session after the login
  POST.
\<close>

theorem login_tokens_propagated:
  fixes lib :: "('a::{zero,plus}) esb_lib"
  assumes "cache_hit cache = None"
    and "get_usage_data lib cache net self = (sent, outcome)"
    and "net [request_1] = Inr (request_1_response, cookies1)"
    and "findall_settings lib (resp_content request_1_response) = r0 # others"
    and "json_loads lib (butlast r0) = Inr settings"
    and "map_of settings ''csrf'' = Some x_csrf_token"
    and "map_of settings ''transId'' = Some transId"
  shows "2 \<le> length sent \<and> sent ! 0 = request_1 \<and>
         req_method (sent ! 1) = POST \<and>
         req_url (sent ! 1) =
           ''https://login.esbnetworks.ie/esbntwkscustportalprdb2c01.onmicrosoft.com/B2C_1A_signup_signin/SelfAsserted?tx=''
             @ transId @ ''&p=B2C_1A_signup_signin'' \<and>
         map_of (req_headers (sent ! 1)) ''x-csrf-token'' = Some x_csrf_token \<and>
         map_of (req_cookies (sent ! 1)) ''x-ms-cpim-csrf'' = Some (map_of cookies1 ''x-ms-cpim-csrf'') \<and>
         map_of (req_cookies (sent ! 1)) ''x-ms-cpim-trans'' = Some (map_of cookies1 ''x-ms-cpim-trans'') \<and>
         (net (take 2 sent) = Inr (request_2_response, cookies2) \<longrightarrow>
            3 \<le> length sent \<and>
            req_method (sent ! 2) = GET \<and>
            map_of (req_params (sent ! 2)) ''csrf_token'' = Some x_csrf_token \<and>
            map_of (req_params (sent ! 2)) ''tx'' = Some transId \<and>
            map_of (req_cookies (sent ! 2)) ''x-ms-cpim-csrf'' = Some (map_of cookies2 ''x-ms-cpim-csrf'') \<and>
            map_of (req_cookies (sent ! 2)) ''x-ms-cpim-trans'' = Some (map_of cookies2 ''x-ms-cpim-trans''))"
proof -
  from assms(4-7) have s: "settings_of lib request_1_response = Inr (x_csrf_token, transId)"
    by (simp add: settings_of_def subscript_def)
  from get_usage_data_sent[OF assms(1,2)] obtain r where f: "fetch lib net self [] = (sent, r)"
    by blast
  note t = fetch_login_trace[OF f assms(3) s]
  from t have len: "2 \<le> length sent" and s0: "sent ! 0 = request_1"
    and s1: "sent ! 1 = request_2 self transId x_csrf_token cookies1"
    by simp_all
  from len have "take 2 sent = [sent ! 0, sent ! 1]"
    by (cases sent; cases "tl sent") auto
  with s0 s1 have t2: "take 2 sent = [request_1, request_2 self transId x_csrf_token cookies1]"
    by simp
  have third: "3 \<le> length sent \<and> sent ! 2 = request_3 self transId x_csrf_token cookies2"
    if "net (take 2 sent) = Inr (request_2_response, cookies2)"
    using that t unfolding t2 by blast
  from len s0 s1 third show ?thesis
    by (auto simp: request_2_fields request_3_fields)
qed

text \<open>
  On the example the token \<open>csrf-1\<close> and the transaction id \<open>tx-1\<close> travel with
  the cookies \<open>c1\<close>, \<open>t1\<close> and then \<open>c2\<close>, \<open>t2\<close>.
\<close>

theorem login_tokens_propagated_witness:
  "cache_hit example_no_cache = None \<and>
   get_usage_data example_lib example_no_cache (example_network example_csv) example_meter =
     (example_requests, Inr example_result) \<and>
   example_network example_csv [request_1] =
     Inr (example_page ''<script>var SETTINGS = SETTINGS-JSON;</script>'', example_jar_1) \<and>
   example_network example_csv (take 2 example_requests) = Inr (example_page ''ok'', example_jar_2) \<and>
   req_method (example_requests ! 1) = POST \<and>
   map_of (req_headers (example_requests ! 1)) ''x-csrf-token'' = Some ''csrf-1'' \<and>
   map_of (req_cookies (example_requests ! 1)) ''x-ms-cpim-csrf'' = Some (Some ''c1'') \<and>
   map_of (req_cookies (example_requests ! 1)) ''x-ms-cpim-trans'' = Some (Some ''t1'') \<and>
   req_method (example_requests ! 2) = GET \<and>
   map_of (req_params (example_requests ! 2)) ''csrf_token'' = Some ''csrf-1'' \<and>
   map_of (req_params (example_requests ! 2)) ''tx'' = Some ''tx-1'' \<and>
   map_of (req_cookies (example_requests ! 2)) ''x-ms-cpim-csrf'' = Some (Some ''c2'') \<and>
   map_of (req_cookies (example_requests ! 2)) ''x-ms-cpim-trans'' = Some (Some ''t2'')"
proof -
  have n1: "example_network example_csv [request_1] =
     Inr (example_page ''<script>var SETTINGS = SETTINGS-JSON;</script>'', example_jar_1)"
    by (simp add: example_network_def)
  have n2: "example_network example_csv (take 2 example_requests) = Inr (example_page ''ok'', example_jar_2)"
    by (simp add: example_network_def example_requests_def)
  have f: "findall_settings example_lib
      (resp_content (example_page ''<script>var SETTINGS = SETTINGS-JSON;</script>'')) = [''SETTINGS-JSON;'']"
    by (simp add: example_lib_def example_page_def)
  have j: "json_loads example_lib (butlast ''SETTINGS-JSON;'') =
      Inr [(''csrf'', ''csrf-1''), (''transId'', ''tx-1'')]"
    by (simp add: example_lib_def)
  have c: "map_of [(''csrf'', ''csrf-1''), (''transId'', ''tx-1'')] ''csrf'' = Some ''csrf-1''"
    by simp
  have t: "map_of [(''csrf'', ''csrf-1''), (''transId'', ''tx-1'')] ''transId'' = Some ''tx-1''"
    by simp
  from login_tokens_propagated[OF example_no_cache_hit example_get_usage_data n1 f j c t,
      of "example_page ''ok''" example_jar_2] n1 n2 example_no_cache_hit example_get_usage_data
  show ?thesis
    by (simp add: example_jar_1_def example_jar_2_def)
qed

text \<open>
  C8. When a call returns, the total usage is the usage of the readings returned,
  added to 0 one after the other as the code adds them; a row whose value is not a
  number changes neither the total nor the readings. This holds for a fetch, and for
  a call that the debug cache answers from a file that a fetch of this program wrote.
\<close>

theorem total_usage_is_sum_of_readings:
  fixes lib :: "('a::{zero,plus}) esb_lib" and fl :: "string \<Rightarrow> 'a option"
  assumes "get_usage_data lib cache net self = (sent, Inr data)"
    and "cache_from_fetch cache"
  shows "total_usage data = foldl (+) 0 (map usage (readings data)) \<and>
         (read_value fl row = Inl ValueError \<longrightarrow>
            process_rows fl (row # rows) tot rs = process_rows fl rows tot rs)"
proof -
  have fresh: "total_usage d = foldl (+) 0 (map usage (readings d))"
    if "cache_hit c = None" "get_usage_data l c n s = (t, Inr d)"
    for l :: "'a esb_lib" and c n s t d
  proof -
    from that obtain request_8_response where
      "parse_usage_csv l request_8_response = Inr d"
      by (rule get_usage_data_success)
    from parse_usage_csv_result[OF this] show ?thesis by blast
  qed
  have "total_usage data = foldl (+) 0 (map usage (readings data))"
  proof (cases "cache_hit cache")
    case None
    from fresh[OF None assms(1)] show ?thesis .
  next
    case (Some cached)
    with assms(1) have data: "data = cached"
      by (simp add: get_usage_data_cached)
    from cache_hit_file[OF Some] assms(2) have "written_by_fetch cached"
      by (simp add: cache_from_fetch_def)
    then obtain l :: "'a esb_lib" and c n s where
      d: "dumped_to_cache l c n s = Some cached"
      unfolding written_by_fetch_def by blast
    then have "cache_hit c = None" and "snd (get_usage_data l c n s) = Inr cached"
      by (auto simp: dumped_to_cache_def split: option.splits sum.splits if_splits)
    then have "get_usage_data l c n s = (fst (get_usage_data l c n s), Inr cached)"
      by (simp add: prod_eq_iff)
    from fresh[OF \<open>cache_hit c = None\<close> this] data show ?thesis by simp
  qed
  moreover have "process_rows fl (row # rows) tot rs = process_rows fl rows tot rs"
    if "read_value fl row = Inl ValueError"
    using that by (simp add: row_reading_def)
  ultimately show ?thesis by blast
qed

text \<open>
  On the example the fetch returns the total 0 + 1/4 + 1/2 and skips the row with the
  value \<open>n/a\<close>; with the debug flag off it writes its result to the cache file, and
  a later call with the flag on returns that document.
\<close>

theorem total_usage_is_sum_of_readings_witness:
  "get_usage_data example_lib example_no_cache (example_network example_csv) example_meter =
     (example_requests, Inr example_result) \<and>
   cache_from_fetch example_no_cache \<and>
   dumped_to_cache example_lib example_no_cache (example_network example_csv) example_meter =
     Some example_result \<and>
   get_usage_data example_lib (example_debug_cache example_result) (example_network example_csv)
       example_meter = ([], Inr example_result) \<and>
   cache_from_fetch (example_debug_cache example_result) \<and>
   total_usage example_result = foldl (+) 0 (map usage (readings example_result)) \<and>
   total_usage example_result = 3/4 \<and>
   map usage (readings example_result) = [1/4, 1/2] \<and>
   read_value (float_of_str example_lib) [(''Read Value'', Some ''n/a'')] = Inl ValueError \<and>
   process_rows (float_of_str example_lib) [[(''Read Value'', Some ''n/a'')]] (0::real) [] = Inr (0, [])"
proof -
  have c0: "cache_from_fetch example_no_cache"
    by (simp add: cache_from_fetch_def example_no_cache_def)
  have d: "dumped_to_cache example_lib example_no_cache (example_network example_csv) example_meter =
     Some example_result"
    by (simp add: dumped_to_cache_def example_no_cache_hit example_get_usage_data)
       (simp add: example_no_cache_def)
  have c1: "cache_from_fetch (example_debug_cache example_result)"
    unfolding cache_from_fetch_def written_by_fetch_def
    using d by (auto simp: example_debug_cache_def)
  have g: "get_usage_data example_lib (example_debug_cache example_result) (example_network example_csv)
       example_meter = ([], Inr example_result)"
    by (simp add: get_usage_data_def cache_hit_def example_debug_cache_def)
  have v: "read_value (float_of_str example_lib) [(''Read Value'', Some ''n/a'')] = Inl ValueError"
    by (simp add: read_value_def example_lib_def)
  have r: "total_usage example_result = 3/4" "map usage (readings example_result) = [1/4, 1/2]"
    by (simp_all add: example_result_def)
  from total_usage_is_sum_of_readings[OF example_get_usage_data c0,
      of "float_of_str example_lib" "[(''Read Value'', Some ''n/a'')]" "[]" 0 "[]"]
    total_usage_is_sum_of_readings[OF g c1,
      of "float_of_str example_lib" "[(''Read Value'', Some ''n/a'')]" "[]" 0 "[]"]
    v c0 c1 d g r example_get_usage_data
  show ?thesis by simp
qed

text \<open>
  C10. When the exchange completes and the decoded body of the final answer does not
  begin with \<open>MPRN\<close>, the call raises \<open>Exception("Invalid CSV format received")\<close>
  and returns nothing. When it does begin with \<open>MPRN\<close>, that exception is not
  raised and the rows are parsed: the call returns the readings of the rows that
  parse, with their usage added up as the total, unless a row holds \<open>None\<close> as its
  value, on which \<open>float\<close> raises \<open>TypeError\<close>.
\<close>

theorem invalid_csv_rejected:
  fixes lib :: "('a::{zero,plus}) esb_lib"
  assumes "cache_hit cache = None"
    and "fetch lib net self [] = (sent, Inr request_8_response)"
    and "decode_utf8 lib (resp_content request_8_response) = Inr csv_file"
    and "rows = filter (\<lambda>row. row \<noteq> []) (DictReader lib (split_on (CHR 0x0A) csv_file))"
  shows "(take 4 csv_file \<noteq> ''MPRN'' \<longrightarrow>
            get_usage_data lib cache net self =
              (sent, Inl (Exception ''Invalid CSV format received''))) \<and>
         (take 4 csv_file = ''MPRN'' \<longrightarrow>
            snd (get_usage_data lib cache net self) \<noteq> Inl (Exception ''Invalid CSV format received'') \<and>
            get_usage_data lib cache net self =
              (sent,
               if \<exists>row \<in> set rows. read_value (float_of_str lib) row = Inl TypeError
               then Inl TypeError
               else Inr \<lparr>total_usage = foldl (+) 0 (map usage (parsed_readings (float_of_str lib) rows)),
                         readings = parsed_readings (float_of_str lib) rows,
                         last_updated = now_isoformat lib\<rparr>))"
proof -
  have bad: "get_usage_data lib cache net self = (sent, Inl (Exception ''Invalid CSV format received''))"
    if "take 4 csv_file \<noteq> ''MPRN''"
    using that assms by (simp add: get_usage_data_fresh parse_usage_csv_def reraise_def)
  have good: "get_usage_data lib cache net self =
              (sent,
               if \<exists>row \<in> set rows. read_value (float_of_str lib) row = Inl TypeError
               then Inl TypeError
               else Inr \<lparr>total_usage = foldl (+) 0 (map usage (parsed_readings (float_of_str lib) rows)),
                         readings = parsed_readings (float_of_str lib) rows,
                         last_updated = now_isoformat lib\<rparr>)"
    if "take 4 csv_file = ''MPRN''"
    using that assms
    by (simp add: get_usage_data_fresh parse_usage_csv_def reraise_def Let_def process_rows_eq)
  have "snd (get_usage_data lib cache net self) \<noteq> Inl (Exception ''Invalid CSV format received'')"
    if "take 4 csv_file = ''MPRN''"
    unfolding good[OF that] by simp
  with bad good show ?thesis by blast
qed

text \<open>
  On the example an HTML body is rejected, and the CSV body gives the two readings of
  the rows whose value is a number and their total.
\<close>

theorem invalid_csv_rejected_witness:
  "cache_hit example_no_cache = None \<and>
   fetch example_lib (example_network ''<html>Sorry</html>'') example_meter [] =
     (example_requests, Inr (example_page ''<html>Sorry</html>'')) \<and>
   take 4 ''<html>Sorry</html>'' \<noteq> ''MPRN'' \<and>
   get_usage_data example_lib example_no_cache (example_network ''<html>Sorry</html>'') example_meter =
     (example_requests, Inl (Exception ''Invalid CSV format received'')) \<and>
   take 4 example_csv = ''MPRN'' \<and>
   get_usage_data example_lib example_no_cache (example_network example_csv) example_meter =
     (example_requests,
      Inr \<lparr>total_usage = 0 + 1/4 + 1/2,
           readings = [\<lparr>date = Some ''01-01-2024 00:30'', usage = 1/4, rtype = Some ''kW''\<rparr>,
                       \<lparr>date = Some ''01-01-2024 01:30'', usage = 1/2, rtype = Some ''kW''\<rparr>],
           last_updated = ''2024-01-02T03:00:00''\<rparr>)"
proof -
  let ?rows = "filter (\<lambda>row. row \<noteq> []) (DictReader example_lib (split_on (CHR 0x0A) example_csv))"
  let ?bad_rows = "filter (\<lambda>row. row \<noteq> [])
      (DictReader example_lib (split_on (CHR 0x0A) ''<html>Sorry</html>''))"
  have bad: "take 4 ''<html>Sorry</html>'' \<noteq> ''MPRN''" by simp
  have good: "take 4 example_csv = ''MPRN''" by (simp add: example_csv_def)
  have f: "float_of_str example_lib = (\<lambda>s. if s = ''0.25'' then Some (1/4) else if s = ''0.5'' then Some (1/2)
                          else if s = ''1'' then Some 1 else None)"
    by (simp add: example_lib_def)
  have no_none: "\<not> (\<exists>row \<in> set ?rows. read_value (float_of_str example_lib) row = Inl TypeError)"
    unfolding example_rows f by (simp add: read_value_def)
  have n: "now_isoformat example_lib = ''2024-01-02T03:00:00''"
    by (simp add: example_lib_def)
  from invalid_csv_rejected[OF example_no_cache_hit example_fetch example_decode refl,
      of "''<html>Sorry</html>''"] bad
  have rejected: "get_usage_data example_lib example_no_cache (example_network ''<html>Sorry</html>'')
      example_meter = (example_requests, Inl (Exception ''Invalid CSV format received''))"
    by blast
  from invalid_csv_rejected[OF example_no_cache_hit example_fetch example_decode refl, of example_csv]
    good no_none
  have "get_usage_data example_lib example_no_cache (example_network example_csv) example_meter =
     (example_requests,
      Inr \<lparr>total_usage = foldl (+) 0 (map usage (parsed_readings (float_of_str example_lib) ?rows)),
           readings = parsed_readings (float_of_str example_lib) ?rows,
           last_updated = now_isoformat example_lib\<rparr>)"
    by simp
  then have accepted: "get_usage_data example_lib example_no_cache (example_network example_csv) example_meter =
     (example_requests,
      Inr \<lparr>total_usage = 0 + 1/4 + 1/2,
           readings = [\<lparr>date = Some ''01-01-2024 00:30'', usage = 1/4, rtype = Some ''kW''\<rparr>,
                       \<lparr>date = Some ''01-01-2024 01:30'', usage = 1/2, rtype = Some ''kW''\<rparr>],
           last_updated = ''2024-01-02T03:00:00''\<rparr>)"
    by (simp add: example_parsed example_result_def n)
  from rejected accepted bad good example_no_cache_hit example_fetch[of "''<html>Sorry</html>''"]
  show ?thesis by blast
qed

section \<open>Claims about the config flow\<close>

text \<open>
  C5. Without input the step shows the form \<open>user\<close> with exactly three required
  string fields, \<open>mprn\<close>, \<open>email\<close> and \<open>password\<close>. With input it sets the
  unique id of the flow to the submitted MPRN; it aborts with \<open>already_configured\<close>
  when an entry with that id is configured, and otherwise creates an entry titled
  \<open>ESB\<close> followed by the MPRN that holds the submitted data.
\<close>

theorem config_flow_unique_mprn:
  "async_step_user configured self None =
     (self,
      Inr (FlowForm ''user''
             [(Required ''mprn'', Str), (Required ''email'', Str), (Required ''password'', Str)] [])) \<and>
   (map_of user_input ''mprn'' = Some m \<longrightarrow>
      unique_id (fst (async_step_user configured self (Some user_input))) = Some m \<and>
      (m \<in> set configured \<longrightarrow>
         snd (async_step_user configured self (Some user_input)) = Inl (AbortFlow ''already_configured'')) \<and>
      (m \<notin> set configured \<longrightarrow>
         snd (async_step_user configured self (Some user_input)) =
           Inr (CreateEntry (''ESB '' @ m) user_input)))"
  by (simp add: async_step_user_def subscript_def async_set_unique_id_def
      abort_if_unique_id_configured_def Let_def)

text \<open>
  On the example the MPRN 10012345678 is refused when it is configured and accepted
  when another one is.
\<close>

theorem config_flow_unique_mprn_witness:
  "map_of example_input ''mprn'' = Some ''10012345678'' \<and>
   async_step_user [''10012345678''] \<lparr>unique_id = None\<rparr> (Some example_input) =
     (\<lparr>unique_id = Some ''10012345678''\<rparr>, Inl (AbortFlow ''already_configured'')) \<and>
   async_step_user [''10099999999''] \<lparr>unique_id = None\<rparr> (Some example_input) =
     (\<lparr>unique_id = Some ''10012345678''\<rparr>, Inr (CreateEntry ''ESB 10012345678'' example_input))"
proof -
  have m: "map_of example_input ''mprn'' = Some ''10012345678''"
    by (simp add: example_input_def)
  have a: "''10012345678'' \<in> set [''10012345678'']" by simp
  have b: "''10012345678'' \<notin> set [''10099999999'']" by simp
  from config_flow_unique_mprn[of "[''10012345678'']" "\<lparr>unique_id = None\<rparr>" example_input "''10012345678''"]
    config_flow_unique_mprn[of "[''10099999999'']" "\<lparr>unique_id = None\<rparr>" example_input "''10012345678''"]
    m a b
  show ?thesis
    by (auto simp: prod_eq_iff)
qed

end
